theory Spec2Isabelle
  imports Main "HOL-Library.Sublist" "HOL-Library.Word"
begin

unbundle bit_operations_syntax

section \<open>Strings\<close>

text \<open>
  A JavaScript string is modelled as a \<^typ>\<open>string\<close>, a list of code units; the model covers
  the code units U+0000 to U+00FF. The methods of \<^verbatim>\<open>String.prototype\<close> the plugin
  calls are written out: \<^verbatim>\<open>s.startsWith(p)\<close> is \<^term>\<open>prefix p s\<close>,
  \<^verbatim>\<open>s.endsWith(p)\<close> is \<^term>\<open>suffix p s\<close>, \<^verbatim>\<open>s.slice(n)\<close> is
  \<^term>\<open>drop n s\<close> and \<^verbatim>\<open>s.slice(0, n)\<close> is \<^term>\<open>take n s\<close>.
\<close>

text \<open>\<^verbatim>\<open>s.includes(pat)\<close>: \<^verbatim>\<open>pat\<close> starts at some position of \<^verbatim>\<open>s\<close>.\<close>

fun str_includes :: "string \<Rightarrow> string \<Rightarrow> bool" where
  "str_includes pat [] = (pat = [])"
| "str_includes pat (c # cs) = (prefix pat (c # cs) \<or> str_includes pat cs)"

text \<open>
  \<^verbatim>\<open>s.replace(pat, rep)\<close> with a string pattern: the leftmost occurrence of
  \<^verbatim>\<open>pat\<close> is replaced, the rest of \<^verbatim>\<open>s\<close> is kept. (The replacement text is taken
  literally; the only replacement the plugin passes has no \<^verbatim>\<open>$\<close> in it.)
\<close>

fun str_replace :: "string \<Rightarrow> string \<Rightarrow> string \<Rightarrow> string" where
  "str_replace pat rep [] = (if pat = [] then rep else [])"
| "str_replace pat rep (c # cs) =
     (if prefix pat (c # cs) then rep @ drop (length pat) (c # cs)
      else c # str_replace pat rep cs)"

text \<open>The position \<^verbatim>\<open>s.indexOf(pat)\<close> of the leftmost occurrence, if there is one.\<close>

fun index_of :: "string \<Rightarrow> string \<Rightarrow> nat option" where
  "index_of pat [] = (if pat = [] then Some 0 else None)"
| "index_of pat (c # cs) =
     (if prefix pat (c # cs) then Some 0 else map_option Suc (index_of pat cs))"

text \<open>The number of positions of \<^verbatim>\<open>s\<close> at which \<^verbatim>\<open>pat\<close> starts.\<close>

fun occurrences :: "string \<Rightarrow> string \<Rightarrow> nat" where
  "occurrences pat [] = (if pat = [] then 1 else 0)"
| "occurrences pat (c # cs) = (if prefix pat (c # cs) then 1 else 0) + occurrences pat cs"

text \<open>\<^verbatim>\<open>lines.join('\n')\<close>.\<close>

definition nl :: string where
  "nl = [CHR 0x0A]"

fun join_lines :: "string list \<Rightarrow> string" where
  "join_lines [] = []"
| "join_lines [l] = l"
| "join_lines (l # ls) = l @ nl @ join_lines ls"

section \<open>\<^verbatim>\<open>JSON.stringify\<close> on a string\<close>

definition hex_alphabet :: string where
  "hex_alphabet = ''0123456789abcdef''"

definition hex_digit :: "nat \<Rightarrow> char" where
  "hex_digit n = hex_alphabet ! (n mod 16)"

definition json_escape :: "char \<Rightarrow> string" where
  "json_escape c =
     (if c = CHR 0x22 then [CHR 0x5C, CHR 0x22]
      else if c = CHR 0x5C then [CHR 0x5C, CHR 0x5C]
      else if c = CHR 0x08 then [CHR 0x5C, CHR ''b'']
      else if c = CHR 0x0C then [CHR 0x5C, CHR ''f'']
      else if c = CHR 0x0A then [CHR 0x5C, CHR ''n'']
      else if c = CHR 0x0D then [CHR 0x5C, CHR ''r'']
      else if c = CHR 0x09 then [CHR 0x5C, CHR ''t'']
      else if (of_char c :: nat) < 0x20
        then [CHR 0x5C, CHR ''u'', CHR ''0'', CHR ''0'',
              hex_digit (of_char c div 16), hex_digit (of_char c mod 16)]
      else [c])"

definition JSON_stringify :: "string \<Rightarrow> string" where
  "JSON_stringify s = CHR 0x22 # concat (map json_escape s) @ [CHR 0x22]"

section \<open>The scope identifier\<close>

text \<open>
  \<^verbatim>\<open>createHash('sha256').update(filename).digest('hex')\<close> is Node's SHA-256 (FIPS 180-4)
  of the UTF-8 encoding of the string, written as 64 lowercase hexadecimal digits. The
  digest works on 32-bit words; additions wrap around.
\<close>

type_synonym u32 = "32 word"

text \<open>
  The constants of the standard are fractional parts of roots of the first primes: the
  round constants are the first 32 bits of the fractional parts of the cube roots of the
  first 64 primes, the initial hash value is the first 32 bits of the fractional parts of
  the square roots of the first 8. \<open>root_floor k n\<close> is the integer part of the \<open>k\<close>-th
  root of \<open>n\<close>, for \<open>n\<close> below \<open>2 ^ (36 * k)\<close>, found by halving the interval 36 times.
\<close>

fun halve :: "nat \<Rightarrow> (int \<Rightarrow> bool) \<Rightarrow> int \<Rightarrow> int \<Rightarrow> int" where
  "halve 0 below lo hi = lo"
| "halve (Suc fuel) below lo hi =
     (let mid = (lo + hi) div 2
      in if below mid then halve fuel below mid hi else halve fuel below lo mid)"

definition root_floor :: "nat \<Rightarrow> int \<Rightarrow> int" where
  "root_floor k n = halve 36 (\<lambda>r. r ^ k \<le> n) 0 (2 ^ 36)"

definition first_primes :: "int list" where
  "first_primes =
     [2, 3, 5, 7, 11, 13, 17, 19, 23, 29, 31, 37, 41, 43, 47, 53,
      59, 61, 67, 71, 73, 79, 83, 89, 97, 101, 103, 107, 109, 113, 127, 131,
      137, 139, 149, 151, 157, 163, 167, 173, 179, 181, 191, 193, 197, 199, 211, 223,
      227, 229, 233, 239, 241, 251, 257, 263, 269, 271, 277, 281, 283, 293, 307, 311]"

definition sha_K :: "u32 list" where
  "sha_K = map (\<lambda>p. of_int (root_floor 3 (p * 2 ^ 96))) first_primes"

type_synonym sha_regs = "u32 \<times> u32 \<times> u32 \<times> u32 \<times> u32 \<times> u32 \<times> u32 \<times> u32"

definition frac_sqrt :: "int \<Rightarrow> u32" where
  "frac_sqrt p = of_int (root_floor 2 (p * 2 ^ 64))"

definition sha_H0 :: sha_regs where
  "sha_H0 = (frac_sqrt 2, frac_sqrt 3, frac_sqrt 5, frac_sqrt 7,
             frac_sqrt 11, frac_sqrt 13, frac_sqrt 17, frac_sqrt 19)"

definition big_sigma0 :: "u32 \<Rightarrow> u32" where
  "big_sigma0 x = word_rotr 2 x XOR word_rotr 13 x XOR word_rotr 22 x"

definition big_sigma1 :: "u32 \<Rightarrow> u32" where
  "big_sigma1 x = word_rotr 6 x XOR word_rotr 11 x XOR word_rotr 25 x"

definition small_sigma0 :: "u32 \<Rightarrow> u32" where
  "small_sigma0 x = word_rotr 7 x XOR word_rotr 18 x XOR drop_bit 3 x"

definition small_sigma1 :: "u32 \<Rightarrow> u32" where
  "small_sigma1 x = word_rotr 17 x XOR word_rotr 19 x XOR drop_bit 10 x"

definition sha_ch :: "u32 \<Rightarrow> u32 \<Rightarrow> u32 \<Rightarrow> u32" where
  "sha_ch x y z = (x AND y) XOR (NOT x AND z)"

definition sha_maj :: "u32 \<Rightarrow> u32 \<Rightarrow> u32 \<Rightarrow> u32" where
  "sha_maj x y z = (x AND y) XOR (x AND z) XOR (y AND z)"

text \<open>Padding: a 1 bit, zeros up to 56 modulo 64 bytes, the bit length on 64 bits, big endian.\<close>

definition be64 :: "64 word \<Rightarrow> 8 word list" where
  "be64 n = map (\<lambda>i. ucast (drop_bit (8 * (7 - i)) n)) [0..<8]"

definition sha_pad :: "8 word list \<Rightarrow> 8 word list" where
  "sha_pad m = m @ [0x80] @ replicate ((119 - length m mod 64) mod 64) 0
                 @ be64 (of_nat (8 * length m))"

fun be_words :: "8 word list \<Rightarrow> u32 list" where
  "be_words (a # b # c # d # rest) =
     (push_bit 24 (ucast a) OR push_bit 16 (ucast b) OR push_bit 8 (ucast c) OR ucast d)
       # be_words rest"
| "be_words _ = []"

fun sha_blocks :: "nat \<Rightarrow> u32 list \<Rightarrow> u32 list list" where
  "sha_blocks 0 ws = []"
| "sha_blocks (Suc n) ws = take 16 ws # sha_blocks n (drop 16 ws)"

fun sha_schedule :: "nat \<Rightarrow> u32 list \<Rightarrow> u32 list" where
  "sha_schedule 0 w = w"
| "sha_schedule (Suc n) w =
     sha_schedule n
       (w @ [small_sigma1 (w ! (length w - 2)) + w ! (length w - 7)
             + small_sigma0 (w ! (length w - 15)) + w ! (length w - 16)])"

fun sha_round :: "u32 \<times> u32 \<Rightarrow> sha_regs \<Rightarrow> sha_regs" where
  "sha_round (k, w) (a, b, c, d, e, f, g, h) =
     (let t1 = h + big_sigma1 e + sha_ch e f g + k + w;
          t2 = big_sigma0 a + sha_maj a b c
      in (t1 + t2, a, b, c, d + t1, e, f, g))"

fun sha_compress :: "u32 list \<Rightarrow> sha_regs \<Rightarrow> sha_regs" where
  "sha_compress block (a, b, c, d, e, f, g, h) =
     (case fold sha_round (zip sha_K (sha_schedule 48 block)) (a, b, c, d, e, f, g, h) of
        (a', b', c', d', e', f', g', h') \<Rightarrow>
          (a + a', b + b', c + c', d + d', e + e', f + f', g + g', h + h'))"

definition sha256 :: "8 word list \<Rightarrow> sha_regs" where
  "sha256 m = (let p = sha_pad m
               in fold sha_compress (sha_blocks (length p div 64) (be_words p)) sha_H0)"

fun digest_words :: "sha_regs \<Rightarrow> u32 list" where
  "digest_words (a, b, c, d, e, f, g, h) = [a, b, c, d, e, f, g, h]"

definition hex32 :: "u32 \<Rightarrow> string" where
  "hex32 w = map (\<lambda>i. hex_digit (unat (drop_bit (4 * (7 - i)) w AND 0xF))) [0..<8]"

definition utf8_encode :: "string \<Rightarrow> 8 word list" where
  "utf8_encode s = concat (map (\<lambda>c. let n = (of_char c :: nat) in
       if n < 0x80 then [of_nat n] else [of_nat (0xC0 + n div 64), of_nat (0x80 + n mod 64)]) s)"

definition sha256_hex :: "string \<Rightarrow> string" where
  "sha256_hex s = concat (map hex32 (digest_words (sha256 (utf8_encode s))))"

definition generateScopeId :: "string \<Rightarrow> string" where
  "generateScopeId filename = take 8 (sha256_hex filename)"

section \<open>The compiled module and the synthesized output\<close>

record CompiledModule =
  code :: string
  css :: "string option"
  scopeId :: string
  hasScoped :: bool

definition export_marker :: string where
  "export_marker = ''export default''"

definition sfc_main_binding :: string where
  "sfc_main_binding = ''const _sfc_main =''"

definition reexport_stmt :: string where
  "reexport_stmt = nl @ ''export default _sfc_main;''"

text \<open>
  The style-injection text of \<^verbatim>\<open>generateOutput\<close>, with the two interpolated literals
  as arguments; the template starts with a line break and ends with one, so that the
  module's code follows on a line of its own.
\<close>

definition style_preamble :: "string \<Rightarrow> string \<Rightarrow> string" where
  "style_preamble cssCode cssId = join_lines
     [[],
      ''const __vize_css__ = '' @ cssCode @ '';'',
      ''const __vize_css_id__ = '' @ cssId @ '';'',
      ''(function() {'',
      ''  if (typeof document !== '' @ [CHR 0x27] @ ''undefined'' @ [CHR 0x27] @ '') {'',
      ''    let style = document.getElementById(__vize_css_id__);'',
      ''    if (!style) {'',
      ''      style = document.createElement('' @ [CHR 0x27] @ ''style'' @ [CHR 0x27] @ '');'',
      ''      style.id = __vize_css_id__;'',
      ''      style.textContent = __vize_css__;'',
      ''      document.head.appendChild(style);'',
      ''    } else {'',
      ''      style.textContent = __vize_css__;'',
      ''    }'',
      ''  }'',
      ''})();'',
      []]"

text \<open>The hot-reload text, with the interpolated \<^verbatim>\<open>JSON.stringify(compiled.scopeId)\<close>.\<close>

definition hmr_block :: "string \<Rightarrow> string" where
  "hmr_block hmrId = join_lines
     [[],
      ''if (import.meta.hot) {'',
      ''  _sfc_main.__hmrId = '' @ hmrId @ '';'',
      ''  import.meta.hot.accept((mod) => {'',
      ''    if (!mod) return;'',
      ''    const { default: updated } = mod;'',
      ''    if (typeof __VUE_HMR_RUNTIME__ !== '' @ [CHR 0x27] @ ''undefined'' @ [CHR 0x27] @ '') {'',
      ''      __VUE_HMR_RUNTIME__.reload(_sfc_main.__hmrId, updated);'',
      ''    }'',
      ''  });'',
      ''  if (typeof __VUE_HMR_RUNTIME__ !== '' @ [CHR 0x27] @ ''undefined'' @ [CHR 0x27] @ '') {'',
      ''    __VUE_HMR_RUNTIME__.createRecord(_sfc_main.__hmrId, _sfc_main);'',
      ''  }'',
      ''}'']"

text \<open>
  \<^verbatim>\<open>generateOutput(compiled, isProduction, isDev)\<close>. The test \<^verbatim>\<open>if (compiled.css)\<close>
  is JavaScript truthiness: an absent css and the empty string both skip the injection.
\<close>

definition style_element_id :: "string \<Rightarrow> string" where
  "style_element_id sid = ''vize-style-'' @ sid"

definition generateOutput :: "CompiledModule \<Rightarrow> bool \<Rightarrow> bool \<Rightarrow> string" where
  "generateOutput compiled isProduction isDev =
     (let output = code compiled;
          hasExportDefault = str_includes export_marker output;
          output = (if hasExportDefault
                    then str_replace export_marker sfc_main_binding output @ reexport_stmt
                    else output);
          output = (case css compiled of
                      None \<Rightarrow> output
                    | Some c \<Rightarrow>
                        if c \<noteq> []
                        then style_preamble (JSON_stringify c)
                               (JSON_stringify (style_element_id (scopeId compiled))) @ output
                        else output);
          output = (if \<not> isProduction \<and> isDev \<and> hasExportDefault
                    then output @ hmr_block (JSON_stringify (scopeId compiled))
                    else output)
      in output)"

section \<open>The collaborators of the plugin\<close>

text \<open>What a JavaScript call of the plugin can throw.\<close>

datatype js_error =
    NativeLoadError
  | FsError string
  | CompilerError string
  | GlobError string
  | ReadError string
  | TypeError

record SfcCompileOptionsNapi =
  filename :: string
  sourceMap :: bool
  ssr :: bool
  scopeAttr :: "string option"

record SfcCompileResult =
  res_code :: string
  res_css :: "string option"
  errors :: "string list"
  warnings :: "string list"

type_synonym CompileSfcFn = "string \<Rightarrow> SfcCompileOptionsNapi \<Rightarrow> js_error + SfcCompileResult"

text \<open>
  The world outside the plugin, as one call sees it: the native binding
  (\<^verbatim>\<open>require('@vize/native').compileSfc\<close>, \<open>None\<close> when the module cannot be loaded),
  \<^verbatim>\<open>fs.readFileSync(path, 'utf-8')\<close>, \<^verbatim>\<open>glob(patterns, {cwd, ignore, absolute: true})\<close>
  and the four functions of Node's \<^verbatim>\<open>path\<close> module that \<^verbatim>\<open>resolveVuePath\<close> calls.
\<close>

record env =
  native :: "CompileSfcFn option"
  readFileSync :: "string \<Rightarrow> js_error + string"
  glob :: "string list \<Rightarrow> string option \<Rightarrow> string list \<Rightarrow> js_error + string list"
  path_isAbsolute :: "string \<Rightarrow> bool"
  path_resolve :: "string \<Rightarrow> string \<Rightarrow> string"
  path_dirname :: "string \<Rightarrow> string"
  path_normalize :: "string \<Rightarrow> string"

text \<open>What the plugin writes to the console.\<close>

datatype log_event =
    CompilationError string "string list"
  | Warning string string
  | PreCompiling nat
  | FailedToCompile string js_error
  | PreCompilationComplete nat nat
  | ReCompiled string
  | ReCompilationFailed string js_error

section \<open>\<^verbatim>\<open>compileFile\<close>\<close>

definition loadNative :: "env \<Rightarrow> js_error + CompileSfcFn" where
  "loadNative e = (case native e of None \<Rightarrow> Inl NativeLoadError | Some f \<Rightarrow> Inr f)"

text \<open>
  The test \<^verbatim>\<open>/<style[^>]*\bscoped\b/.test(content)\<close>: somewhere \<^verbatim>\<open><style\<close>, then
  characters other than \<^verbatim>\<open>>\<close>, then the word \<^verbatim>\<open>scoped\<close> between two word boundaries.
\<close>

definition is_word_char :: "char \<Rightarrow> bool" where
  "is_word_char c =
     (let n = (of_char c :: nat)
      in (0x30 \<le> n \<and> n \<le> 0x39) \<or> (0x41 \<le> n \<and> n \<le> 0x5A) \<or> n = 0x5F
         \<or> (0x61 \<le> n \<and> n \<le> 0x7A))"

fun scoped_word_after :: "char \<Rightarrow> string \<Rightarrow> bool" where
  "scoped_word_after prev [] = False"
| "scoped_word_after prev (c # cs) =
     ((\<not> is_word_char prev \<and> prefix ''scoped'' (c # cs)
        \<and> (case drop 6 (c # cs) of [] \<Rightarrow> True | d # _ \<Rightarrow> \<not> is_word_char d))
      \<or> (c \<noteq> CHR ''>'' \<and> scoped_word_after c cs))"

fun has_scoped_style :: "string \<Rightarrow> bool" where
  "has_scoped_style [] = False"
| "has_scoped_style (c # cs) =
     ((prefix ''<style'' (c # cs) \<and> scoped_word_after (CHR ''e'') (drop 6 (c # cs)))
      \<or> has_scoped_style cs)"

text \<open>
  \<^verbatim>\<open>compileFile(filePath, cache, options, source?)\<close>. The cache is a \<^verbatim>\<open>Map\<close> the
  function writes to; the model returns what the call returned or threw, the cache after
  the call and what the call logged.
\<close>

definition compileFile ::
  "env \<Rightarrow> string \<Rightarrow> (string \<rightharpoonup> CompiledModule) \<Rightarrow> bool \<times> bool \<Rightarrow> string option
    \<Rightarrow> (js_error + CompiledModule) \<times> (string \<rightharpoonup> CompiledModule) \<times> log_event list" where
  "compileFile e filePath cache options source =
     (case loadNative e of
        Inl err \<Rightarrow> (Inl err, cache, [])
      | Inr compile \<Rightarrow>
     (case (case source of Some s \<Rightarrow> Inr s | None \<Rightarrow> readFileSync e filePath) of
        Inl err \<Rightarrow> (Inl err, cache, [])
      | Inr content \<Rightarrow>
     (let scopeId = generateScopeId filePath;
          hasScoped = has_scoped_style content
      in case compile content
             \<lparr>filename = filePath, sourceMap = fst options, ssr = snd options,
              scopeAttr = (if hasScoped then Some (''data-v-'' @ scopeId) else None)\<rparr> of
           Inl err \<Rightarrow> (Inl err, cache, [])
         | Inr result \<Rightarrow>
             (let errorLog = (if errors result \<noteq> []
                              then [CompilationError filePath (errors result)] else []);
                  warningLog = map (Warning filePath) (warnings result);
                  compiled = \<lparr>code = res_code result, css = res_css result,
                              scopeId = scopeId, hasScoped = hasScoped\<rparr>
              in (Inr compiled, cache(filePath \<mapsto> compiled), errorLog @ warningLog)))))"

section \<open>Node's \<^verbatim>\<open>path\<close> module on POSIX\<close>

text \<open>
  The four functions of \<^verbatim>\<open>path.posix\<close> the plugin calls, for the concrete runs
  below. A path is cut at its slashes; \<^verbatim>\<open>normalizeString\<close> drops empty and
  \<^verbatim>\<open>.\<close> segments and lets \<^verbatim>\<open>..\<close> take back the segment before it.
\<close>

definition path_segments :: "string \<Rightarrow> string list" where
  "path_segments p =
     foldr (\<lambda>c acc. if c = CHR ''/'' then [] # acc
                     else (case acc of [] \<Rightarrow> [[c]] | seg # segs \<Rightarrow> (c # seg) # segs)) p [[]]"

fun join_slash :: "string list \<Rightarrow> string" where
  "join_slash [] = []"
| "join_slash [seg] = seg"
| "join_slash (seg # segs) = seg @ ''/'' @ join_slash segs"

fun normalize_segments :: "bool \<Rightarrow> string list \<Rightarrow> string list \<Rightarrow> string list" where
  "normalize_segments allowAboveRoot kept [] = rev kept"
| "normalize_segments allowAboveRoot kept (seg # segs) =
     (if seg = [] \<or> seg = ''.'' then normalize_segments allowAboveRoot kept segs
      else if seg = ''..''
      then (case kept of
              [] \<Rightarrow> normalize_segments allowAboveRoot (if allowAboveRoot then [''..''] else []) segs
            | k # ks \<Rightarrow>
                if k = ''..'' then normalize_segments allowAboveRoot (''..'' # kept) segs
                else normalize_segments allowAboveRoot ks segs)
      else normalize_segments allowAboveRoot (seg # kept) segs)"

definition normalizeString :: "string \<Rightarrow> bool \<Rightarrow> string" where
  "normalizeString p allowAboveRoot =
     join_slash (normalize_segments allowAboveRoot [] (path_segments p))"

definition posix_isAbsolute :: "string \<Rightarrow> bool" where
  "posix_isAbsolute p = (case p of [] \<Rightarrow> False | c # _ \<Rightarrow> c = CHR ''/'')"

definition posix_normalize :: "string \<Rightarrow> string" where
  "posix_normalize p =
     (if p = [] then ''.''
      else (let isAbsolute = posix_isAbsolute p;
                trailingSeparator = (last p = CHR ''/'');
                q = normalizeString p (\<not> isAbsolute)
            in if q = [] then (if isAbsolute then ''/'' else if trailingSeparator then ''./'' else ''.'')
               else (if isAbsolute then ''/'' else []) @ q @ (if trailingSeparator then ''/'' else [])))"

text \<open>\<^verbatim>\<open>path.resolve(a, b)\<close> in the working directory \<^verbatim>\<open>cwd\<close>, from the right.\<close>

definition resolve_step :: "string \<Rightarrow> string \<times> bool \<Rightarrow> string \<times> bool" where
  "resolve_step p acc =
     (if snd acc \<or> p = [] then acc else (p @ ''/'' @ fst acc, posix_isAbsolute p))"

definition posix_resolve :: "string \<Rightarrow> string \<Rightarrow> string \<Rightarrow> string" where
  "posix_resolve cwd a b =
     (let acc = resolve_step cwd (resolve_step a (resolve_step b ([], False)));
          q = normalizeString (fst acc) (\<not> snd acc)
      in if snd acc then ''/'' @ q else if q \<noteq> [] then q else ''.'')"

definition posix_dirname :: "string \<Rightarrow> string" where
  "posix_dirname p =
     (case p of
        [] \<Rightarrow> ''.''
      | c # cs \<Rightarrow>
          (let hasRoot = (c = CHR ''/'');
               upto_slash = dropWhile (\<lambda>x. x \<noteq> CHR ''/'') (dropWhile (\<lambda>x. x = CHR ''/'') (rev cs));
               end = length upto_slash
           in if upto_slash = [] then (if hasRoot then ''/'' else ''.'')
              else if hasRoot \<and> end = 1 then ''//''
              else take end p))"

section \<open>The plugin\<close>

definition VIRTUAL_PREFIX :: string where
  "VIRTUAL_PREFIX = CHR 0x00 # ''vize:''"

definition style_query :: string where
  "style_query = ''?vue&type=style''"

text \<open>
  A filter pattern is a string, matched by \<^verbatim>\<open>id.includes(pattern)\<close>, or a regular
  expression, matched by \<^verbatim>\<open>pattern.test(id)\<close> and modelled as the predicate it decides
  (an expression without the \<^verbatim>\<open>g\<close> and \<^verbatim>\<open>y\<close> flags, such as the two defaults; with
  one of them \<^verbatim>\<open>test\<close> would also depend on where the last match ended).
  An option is one pattern or an array of patterns.
\<close>

datatype filter_pattern = StrPattern string | RegExpPattern "string \<Rightarrow> bool"

datatype filter_arg = OnePattern filter_pattern | ManyPatterns "filter_pattern list"

record VizeOptions =
  opt_include :: "filter_arg option"
  opt_exclude :: "filter_arg option"
  opt_scanPatterns :: "string list option"
  opt_ignorePatterns :: "string list option"
  opt_sourceMap :: "bool option"
  opt_ssr :: "bool option"
  opt_isProduction :: "bool option"
  opt_root :: "string option"

fun matches_pattern :: "string \<Rightarrow> filter_pattern \<Rightarrow> bool" where
  "matches_pattern ident (StrPattern p) = str_includes p ident"
| "matches_pattern ident (RegExpPattern r) = r ident"

text \<open>
  \<^verbatim>\<open>include ? (Array.isArray(include) ? include : [include]) : dflt\<close>: an absent
  option and the empty string are falsy, an array never is.
\<close>

fun pattern_list :: "filter_arg option \<Rightarrow> filter_pattern list \<Rightarrow> filter_pattern list" where
  "pattern_list None dflt = dflt"
| "pattern_list (Some (ManyPatterns ps)) dflt = ps"
| "pattern_list (Some (OnePattern (StrPattern p))) dflt = (if p = [] then dflt else [StrPattern p])"
| "pattern_list (Some (OnePattern (RegExpPattern r))) dflt = [RegExpPattern r]"

definition createFilter :: "filter_arg option \<Rightarrow> filter_arg option \<Rightarrow> string \<Rightarrow> bool" where
  "createFilter incl excl =
     (let includePatterns = pattern_list incl [RegExpPattern (suffix ''.vue'')];
          excludePatterns = pattern_list excl [RegExpPattern (str_includes ''node_modules'')]
      in (\<lambda>ident. list_ex (matches_pattern ident) includePatterns
                   \<and> \<not> list_ex (matches_pattern ident) excludePatterns))"

text \<open>
  The state one call of \<^verbatim>\<open>vize(options)\<close> closes over. \<^verbatim>\<open>isProduction\<close> and
  \<^verbatim>\<open>root\<close> are declared without a value and are \<^verbatim>\<open>undefined\<close> until
  \<^verbatim>\<open>configResolved\<close> runs; of \<^verbatim>\<open>server\<close> the plugin only tests whether it is
  \<^verbatim>\<open>null\<close>.
\<close>

record plugin_state =
  cache :: "string \<rightharpoonup> CompiledModule"
  virtualToReal :: "string \<rightharpoonup> string"
  isProduction :: "bool option"
  root :: "string option"
  server :: bool
  console :: "log_event list"

definition initial_state :: plugin_state where
  "initial_state = \<lparr>cache = Map.empty, virtualToReal = Map.empty, isProduction = None,
                     root = None, server = False, console = []\<rparr>"

text \<open>\<^verbatim>\<open>!isProduction\<close>: \<^verbatim>\<open>undefined\<close> is falsy.\<close>

definition not_production :: "plugin_state \<Rightarrow> bool" where
  "not_production st = (isProduction st \<noteq> Some True)"

text \<open>The options both callers of \<^verbatim>\<open>compileFile\<close> pass.\<close>

definition compile_flags :: "VizeOptions \<Rightarrow> plugin_state \<Rightarrow> bool \<times> bool" where
  "compile_flags options st =
     ((case opt_sourceMap options of Some b \<Rightarrow> b | None \<Rightarrow> not_production st),
      (case opt_ssr options of Some b \<Rightarrow> b | None \<Rightarrow> False))"

text \<open>
  The loop of \<^verbatim>\<open>compileAll\<close>, over the files still to compile, with the cache, the
  console and the two counters.
\<close>

fun compileAll_loop ::
  "env \<Rightarrow> bool \<times> bool \<Rightarrow> string list
    \<Rightarrow> (string \<rightharpoonup> CompiledModule) \<times> log_event list \<times> nat \<times> nat
    \<Rightarrow> (string \<rightharpoonup> CompiledModule) \<times> log_event list \<times> nat \<times> nat" where
  "compileAll_loop e flags [] acc = acc"
| "compileAll_loop e flags (file # files) (c, out, successCount, errorCount) =
     (case compileFile e file c flags None of
        (Inr compiled, c', logged) \<Rightarrow>
          compileAll_loop e flags files (c', out @ logged, successCount + 1, errorCount)
      | (Inl err, c', logged) \<Rightarrow>
          compileAll_loop e flags files
            (c', out @ logged @ [FailedToCompile file err], successCount, errorCount + 1))"

definition scanPatterns :: "VizeOptions \<Rightarrow> string list" where
  "scanPatterns options =
     (case opt_scanPatterns options of Some ps \<Rightarrow> ps | None \<Rightarrow> [''**/*.vue''])"

definition ignorePatterns :: "VizeOptions \<Rightarrow> string list" where
  "ignorePatterns options =
     (case opt_ignorePatterns options of Some ps \<Rightarrow> ps
      | None \<Rightarrow> [''node_modules/**'', ''dist/**'', ''.git/**''])"

definition compileAll :: "env \<Rightarrow> VizeOptions \<Rightarrow> plugin_state \<Rightarrow> js_error + plugin_state" where
  "compileAll e options st =
     (case glob e (scanPatterns options) (root st) (ignorePatterns options) of
        Inl err \<Rightarrow> Inl err
      | Inr files \<Rightarrow>
          (case compileAll_loop e (compile_flags options st) files
                  (cache st, console st @ [PreCompiling (length files)], 0, 0) of
             (c, out, successCount, errorCount) \<Rightarrow>
               Inr (st\<lparr>cache := c,
                       console := out @ [PreCompilationComplete successCount errorCount]\<rparr>)))"

text \<open>
  Whether the call of \<^verbatim>\<open>compileFile\<close> in the loop throws on a file; the cache has no
  part in that.
\<close>

definition compile_throws :: "env \<Rightarrow> bool \<times> bool \<Rightarrow> string \<Rightarrow> bool" where
  "compile_throws e flags file = isl (fst (compileFile e file Map.empty flags None))"

text \<open>
  \<^verbatim>\<open>virtualToReal.get(id) ?? id.slice(VIRTUAL_PREFIX.length)\<close>, the expression
  \<^verbatim>\<open>resolveVuePath\<close> and \<^verbatim>\<open>load\<close> decode a virtual id with.
\<close>

definition real_of_virtual :: "plugin_state \<Rightarrow> string \<Rightarrow> string" where
  "real_of_virtual st ident =
     (case virtualToReal st ident of Some r \<Rightarrow> r | None \<Rightarrow> drop (length VIRTUAL_PREFIX) ident)"

text \<open>
  \<^verbatim>\<open>resolveVuePath(id, importer?)\<close>. \<^verbatim>\<open>if (importer)\<close> is truthiness: an absent
  importer and the empty string take the last branch, where \<^verbatim>\<open>path.resolve\<close> throws a
  \<^verbatim>\<open>TypeError\<close> on a \<^verbatim>\<open>root\<close> that is still \<^verbatim>\<open>undefined\<close>.
\<close>

definition truthy :: "string option \<Rightarrow> string option" where
  "truthy x = (case x of None \<Rightarrow> None | Some v \<Rightarrow> if v = [] then None else Some v)"

definition resolveVuePath :: "env \<Rightarrow> plugin_state \<Rightarrow> string \<Rightarrow> string option \<Rightarrow> js_error + string" where
  "resolveVuePath e st ident importer =
     (if path_isAbsolute e ident then Inr (path_normalize e ident)
      else case truthy importer of
             Some imp \<Rightarrow>
               (let realImporter = (if prefix VIRTUAL_PREFIX imp then real_of_virtual st imp
                                    else imp)
                in Inr (path_normalize e (path_resolve e (path_dirname e realImporter) ident)))
           | None \<Rightarrow>
               (case root st of
                  None \<Rightarrow> Inl TypeError
                | Some r \<Rightarrow> Inr (path_normalize e (path_resolve e r ident))))"

definition configResolved :: "VizeOptions \<Rightarrow> bool \<times> string \<Rightarrow> plugin_state \<Rightarrow> plugin_state" where
  "configResolved options resolvedConfig st =
     st\<lparr>isProduction := Some (case opt_isProduction options of Some b \<Rightarrow> b
                                | None \<Rightarrow> fst resolvedConfig),
        root := Some (case opt_root options of Some r \<Rightarrow> r | None \<Rightarrow> snd resolvedConfig)\<rparr>"

definition configureServer :: "plugin_state \<Rightarrow> plugin_state" where
  "configureServer st = st\<lparr>server := True\<rparr>"

definition buildStart :: "env \<Rightarrow> VizeOptions \<Rightarrow> plugin_state \<Rightarrow> js_error + plugin_state" where
  "buildStart e options st = compileAll e options st"

text \<open>\<^verbatim>\<open>resolveId(id, importer?)\<close>: what the hook returns and the state after it.\<close>

definition resolveId ::
  "env \<Rightarrow> plugin_state \<Rightarrow> string \<Rightarrow> string option \<Rightarrow> js_error + (string option \<times> plugin_state)" where
  "resolveId e st ident importer =
     (if str_includes style_query ident then Inr (Some ident, st)
      else if suffix ''.vue'' ident
      then (case resolveVuePath e st ident importer of
              Inl err \<Rightarrow> Inl err
            | Inr resolved \<Rightarrow>
                (if cache st resolved \<noteq> None
                 then (let virtualId = VIRTUAL_PREFIX @ resolved
                       in Inr (Some virtualId,
                               st\<lparr>virtualToReal := (virtualToReal st)(virtualId \<mapsto> resolved)\<rparr>))
                 else Inr (None, st)))
      else Inr (None, st))"

text \<open>\<^verbatim>\<open>load(id)\<close> returns \<^verbatim>\<open>null\<close>, a string or \<^verbatim>\<open>{ code, map: null }\<close>.\<close>

datatype load_result = LoadNull | LoadString string | LoadCode string

definition load :: "plugin_state \<Rightarrow> string \<Rightarrow> load_result" where
  "load st ident =
     (if str_includes style_query ident
      then (let filename = takeWhile (\<lambda>c. c \<noteq> CHR ''?'') ident;
                realPath = (if prefix VIRTUAL_PREFIX filename then real_of_virtual st filename
                            else filename)
            in case cache st realPath of
                 None \<Rightarrow> LoadString []
               | Some compiled \<Rightarrow>
                   (case css compiled of
                      None \<Rightarrow> LoadString []
                    | Some c \<Rightarrow> if c \<noteq> [] then LoadString c else LoadString []))
      else if prefix VIRTUAL_PREFIX ident
      then (case cache st (real_of_virtual st ident) of
              None \<Rightarrow> LoadNull
            | Some compiled \<Rightarrow>
                LoadCode (generateOutput compiled (\<not> not_production st) (server st)))
      else LoadNull)"

text \<open>
  \<^verbatim>\<open>handleHotUpdate(ctx)\<close>, with the file, what awaiting \<^verbatim>\<open>ctx.read()\<close> gave and
  \<^verbatim>\<open>ctx.server.moduleGraph.getModulesByFile\<close>; a module of the host's graph is known by
  a number. The hook returns a list of modules or nothing. The message of a successful
  recompilation shows \<^verbatim>\<open>path.relative(root, file)\<close>, which throws inside the
  \<^verbatim>\<open>try\<close> block while \<^verbatim>\<open>root\<close> is \<^verbatim>\<open>undefined\<close>.
\<close>

type_synonym ModuleNode = nat

definition handleHotUpdate ::
  "env \<Rightarrow> VizeOptions \<Rightarrow> plugin_state \<Rightarrow> string \<Rightarrow> js_error + string
    \<Rightarrow> (string \<Rightarrow> ModuleNode list option) \<Rightarrow> ModuleNode list option \<times> plugin_state" where
  "handleHotUpdate e options st file readResult getModulesByFile =
     (if suffix ''.vue'' file \<and> createFilter (opt_include options) (opt_exclude options) file
      then (let st' =
                  (case readResult of
                     Inl err \<Rightarrow> st\<lparr>console := console st @ [ReCompilationFailed file err]\<rparr>
                   | Inr source \<Rightarrow>
                       (case compileFile e file (cache st) (compile_flags options st) (Some source) of
                          (Inr compiled, c', logged) \<Rightarrow>
                            st\<lparr>cache := c',
                               console := console st @ logged @
                                 [case root st of
                                    Some r \<Rightarrow> ReCompiled file
                                  | None \<Rightarrow> ReCompilationFailed file TypeError]\<rparr>
                        | (Inl err, c', logged) \<Rightarrow>
                            st\<lparr>cache := c',
                               console := console st @ logged @ [ReCompilationFailed file err]\<rparr>));
                virtualId = VIRTUAL_PREFIX @ file;
                modules = (case getModulesByFile virtualId of
                             Some ms \<Rightarrow> Some ms
                           | None \<Rightarrow> getModulesByFile file)
            in (modules, st'))
      else (None, st))"

text \<open>
  The states of a plugin instance: the initial one and every state a hook leaves behind.
  A hook that throws leaves the state as it was; \<^verbatim>\<open>load\<close> changes nothing.
\<close>

inductive reachable :: "VizeOptions \<Rightarrow> plugin_state \<Rightarrow> bool" for options :: VizeOptions where
  reach_init: "reachable options initial_state"
| reach_configResolved:
    "reachable options st \<Longrightarrow> reachable options (configResolved options resolvedConfig st)"
| reach_configureServer:
    "reachable options st \<Longrightarrow> reachable options (configureServer st)"
| reach_buildStart:
    "reachable options st \<Longrightarrow> buildStart e options st = Inr st' \<Longrightarrow> reachable options st'"
| reach_resolveId:
    "reachable options st \<Longrightarrow> resolveId e st ident importer = Inr (r, st')
      \<Longrightarrow> reachable options st'"
| reach_handleHotUpdate:
    "reachable options st
      \<Longrightarrow> handleHotUpdate e options st file readResult getModulesByFile = (ms, st')
      \<Longrightarrow> reachable options st'"

section \<open>What the emitted routines do\<close>

text \<open>
  The style routine runs in the page. A document is its elements, those of the head
  before those of the body; \<^verbatim>\<open>document.getElementById\<close> gives the first element in
  that order that has the id. Where \<^verbatim>\<open>typeof document\<close> is \<^verbatim>\<open>'undefined'\<close> there is
  no document and the routine does nothing.
\<close>

record dom_element =
  tagName :: string
  element_id :: string
  textContent :: string

record dom_document =
  doc_head :: "dom_element list"
  doc_body :: "dom_element list"

definition getElementById :: "dom_document \<Rightarrow> string \<Rightarrow> dom_element option" where
  "getElementById doc i = find (\<lambda>el. element_id el = i) (doc_head doc @ doc_body doc)"

text \<open>\<^verbatim>\<open>style.textContent = css\<close> on the element \<^verbatim>\<open>getElementById\<close> found.\<close>

fun set_first_text :: "string \<Rightarrow> string \<Rightarrow> dom_element list \<Rightarrow> dom_element list" where
  "set_first_text i txt [] = []"
| "set_first_text i txt (el # els) =
     (if element_id el = i then el\<lparr>textContent := txt\<rparr> # els
      else el # set_first_text i txt els)"

definition style_routine :: "string \<Rightarrow> string \<Rightarrow> dom_document option \<Rightarrow> dom_document option" where
  "style_routine vize_css vize_css_id document =
     (case document of
        None \<Rightarrow> None
      | Some doc \<Rightarrow>
          (case getElementById doc vize_css_id of
             None \<Rightarrow>
               Some (doc\<lparr>doc_head := doc_head doc @
                      [\<lparr>tagName = ''style'', element_id = vize_css_id, textContent = vize_css\<rparr>]\<rparr>)
           | Some style \<Rightarrow>
               (if list_ex (\<lambda>el. element_id el = vize_css_id) (doc_head doc)
                then Some (doc\<lparr>doc_head := set_first_text vize_css_id vize_css (doc_head doc)\<rparr>)
                else Some (doc\<lparr>doc_body := set_first_text vize_css_id vize_css (doc_body doc)\<rparr>))))"

definition elements_with_id :: "string \<Rightarrow> dom_document option \<Rightarrow> dom_element list" where
  "elements_with_id i document =
     (case document of
        None \<Rightarrow> []
      | Some doc \<Rightarrow> filter (\<lambda>el. element_id el = i) (doc_head doc @ doc_body doc))"

text \<open>
  The callback the hot-reload text passes to \<^verbatim>\<open>import.meta.hot.accept\<close>, as the calls
  it makes on \<^verbatim>\<open>__VUE_HMR_RUNTIME__\<close>: the updated module is absent or has a default
  export, and the runtime is defined or not.
\<close>

datatype 'a hmr_call = Reload string 'a | CreateRecord string


section \<open>A run of the plugin\<close>

text \<open>
  A stand-in for the native compiler, which reports an error on a source without a
  template, and a project directory \<^verbatim>\<open>/app\<close> with two files that can be read.
\<close>

definition example_compileSfc :: CompileSfcFn where
  "example_compileSfc content opts =
     Inr \<lparr>res_code = ''export default {}'',
          res_css = (if str_includes ''<style'' content then Some ''a{}'' else None),
          errors = (if str_includes ''<template'' content then [] else [''no template'']),
          warnings = []\<rparr>"

definition example_files :: "string \<Rightarrow> js_error + string" where
  "example_files p =
     (if p = ''/app/A.vue'' then Inr ''<template></template>''
      else if p = ''/app/B.vue'' then Inr ''<style scoped>a{}</style>''
      else Inl (FsError p))"

definition example_env :: "string list \<Rightarrow> env" where
  "example_env found =
     \<lparr>native = Some example_compileSfc,
      readFileSync = example_files,
      glob = (\<lambda>patterns cwd ignore. Inr found),
      path_isAbsolute = posix_isAbsolute,
      path_resolve = posix_resolve ''/app'',
      path_dirname = posix_dirname,
      path_normalize = posix_normalize\<rparr>"

definition default_options :: VizeOptions where
  "default_options =
     \<lparr>opt_include = None, opt_exclude = None, opt_scanPatterns = None,
      opt_ignorePatterns = None, opt_sourceMap = None, opt_ssr = None,
      opt_isProduction = None, opt_root = None\<rparr>"

text \<open>A compiled module with two default-export markers and a style.\<close>

definition example_module :: CompiledModule where
  "example_module =
     \<lparr>code = ''a; export default 1; export default 2'', css = Some ''a{}'',
      scopeId = ''c0cc6f12'', hasScoped = False\<rparr>"

text \<open>
  The instance after \<^verbatim>\<open>configResolved\<close> and a \<^verbatim>\<open>buildStart\<close> that finds the two
  readable files and a third that cannot be read, and after a \<^verbatim>\<open>resolveId\<close> on the
  first file.
\<close>

definition example_configured :: plugin_state where
  "example_configured = configResolved default_options (False, ''/app'') initial_state"

definition example_started :: plugin_state where
  "example_started =
     (case buildStart (example_env [''/app/A.vue'', ''/app/B.vue'', ''/app/C.vue''])
             default_options example_configured of
        Inl err \<Rightarrow> example_configured
      | Inr st \<Rightarrow> st)"

definition example_resolved :: plugin_state where
  "example_resolved =
     (case resolveId (example_env []) example_started ''/app/A.vue'' None of
        Inl err \<Rightarrow> example_started
      | Inr (r, st) \<Rightarrow> st)"

section \<open>The synthesized output\<close>

lemma index_of_includes: "(index_of pat s \<noteq> None) = str_includes pat s"
  by (induction s) auto

lemma index_of_leftmost:
  "index_of pat s = Some i \<Longrightarrow>
     prefix pat (drop i s) \<and> (\<forall>j<i. \<not> prefix pat (drop j s))"
proof (induction s arbitrary: i)
  case Nil
  then show ?case by (simp split: if_splits)
next
  case (Cons c cs)
  show ?case
  proof (cases "prefix pat (c # cs)")
    case True
    with Cons.prems show ?thesis by simp
  next
    case False
    with Cons.prems obtain k where k: "index_of pat cs = Some k" "i = Suc k"
      by auto
    from Cons.IH [OF k(1)] have ih: "prefix pat (drop k cs)" "\<forall>j<k. \<not> prefix pat (drop j cs)"
      by simp_all
    have "\<not> prefix pat (drop j (c # cs))" if "j < Suc k" for j
      using that False ih(2) by (cases j) simp_all
    with ih(1) k(2) show ?thesis by simp
  qed
qed

lemma str_replace_at_index:
  "index_of pat s = Some i \<Longrightarrow>
     str_replace pat rep s = take i s @ rep @ drop (i + length pat) s"
proof (induction s arbitrary: i)
  case Nil
  then show ?case by (simp split: if_splits)
next
  case (Cons c cs)
  then show ?case by (cases "prefix pat (c # cs)") auto
qed

lemma generateOutput_parts:
  "generateOutput compiled inProd inDev =
     (case css compiled of
        None \<Rightarrow> []
      | Some c \<Rightarrow> if c \<noteq> [] then style_preamble (JSON_stringify c)
                                  (JSON_stringify (style_element_id (scopeId compiled)))
                  else [])
     @ (if str_includes export_marker (code compiled)
        then str_replace export_marker sfc_main_binding (code compiled) @ reexport_stmt
        else code compiled)
     @ (if \<not> inProd \<and> inDev \<and> str_includes export_marker (code compiled)
        then hmr_block (JSON_stringify (scopeId compiled)) else [])"
  by (simp add: generateOutput_def Let_def split: option.splits)

text \<open>
  Claim C10. When the code contains \<^verbatim>\<open>export default\<close>, \<^verbatim>\<open>generateOutput\<close> replaces
  the leftmost occurrence of the marker, the one at the least position \<open>i\<close>, by
  \<^verbatim>\<open>const _sfc_main =\<close>, keeps the text before and after it as it is (later markers
  included) and appends the re-export statement once; the style text goes before the
  result and the hot-reload text after it.
\<close>

theorem default_export_rewrite:
  assumes "str_includes export_marker (code compiled)"
  shows "\<exists>i. index_of export_marker (code compiled) = Some i
           \<and> prefix export_marker (drop i (code compiled))
           \<and> (\<forall>j<i. \<not> prefix export_marker (drop j (code compiled)))
           \<and> generateOutput compiled inProd inDev =
               (case css compiled of
                  None \<Rightarrow> []
                | Some c \<Rightarrow> if c \<noteq> [] then style_preamble (JSON_stringify c)
                                            (JSON_stringify (style_element_id (scopeId compiled)))
                            else [])
               @ take i (code compiled) @ sfc_main_binding
               @ drop (i + length export_marker) (code compiled)
               @ reexport_stmt
               @ (if \<not> inProd \<and> inDev
                  then hmr_block (JSON_stringify (scopeId compiled)) else [])"
proof -
  from assms obtain i where i: "index_of export_marker (code compiled) = Some i"
    using index_of_includes [of export_marker "code compiled"] by auto
  from index_of_leftmost [OF i] str_replace_at_index [OF i, of sfc_main_binding] assms i
  show ?thesis
    by (simp add: generateOutput_parts)
qed

theorem default_export_rewrite_witness:
  "str_includes export_marker (code example_module)
   \<and> generateOutput (example_module\<lparr>css := None\<rparr>) True False =
       ''a; const _sfc_main = 1; export default 2'' @ [CHR 0x0A] @ ''export default _sfc_main;''"
proof -
  have h: "str_includes export_marker (code (example_module\<lparr>css := None\<rparr>))"
    by (simp add: example_module_def export_marker_def)
  have ix: "index_of export_marker (code (example_module\<lparr>css := None\<rparr>)) = Some 3"
    by (simp add: example_module_def export_marker_def)
  from default_export_rewrite [OF h, of True False] ix
  have "generateOutput (example_module\<lparr>css := None\<rparr>) True False =
          take 3 (code example_module) @ sfc_main_binding
          @ drop (3 + length export_marker) (code example_module) @ reexport_stmt"
    by auto
  with h show ?thesis
    by (simp add: example_module_def export_marker_def sfc_main_binding_def reexport_stmt_def
        nl_def)
qed






lemma filter_set_first_text:
  "filter (\<lambda>el. element_id el = i) (set_first_text i txt els) =
     (case filter (\<lambda>el. element_id el = i) els of
        [] \<Rightarrow> []
      | el # rest \<Rightarrow> el\<lparr>textContent := txt\<rparr> # rest)"
  by (induction els) auto

lemma find_None_filter: "(find P xs = None) = (filter P xs = [])"
  by (induction xs) auto

lemma elements_after_style_routine:
  "elements_with_id i (style_routine txt i (Some doc)) =
     (case elements_with_id i (Some doc) of
        [] \<Rightarrow> [\<lparr>tagName = ''style'', element_id = i, textContent = txt\<rparr>]
      | el # rest \<Rightarrow> el\<lparr>textContent := txt\<rparr> # rest)"
proof (cases "getElementById doc i")
  case None
  then have "filter (\<lambda>el. element_id el = i) (doc_head doc @ doc_body doc) = []"
    by (simp add: getElementById_def find_None_filter)
  with None show ?thesis
    by (simp add: style_routine_def elements_with_id_def)
next
  case (Some style)
  then have ne: "filter (\<lambda>el. element_id el = i) (doc_head doc @ doc_body doc) \<noteq> []"
    using find_None_filter [of "\<lambda>el. element_id el = i" "doc_head doc @ doc_body doc"]
    by (simp add: getElementById_def)
  show ?thesis
  proof (cases "list_ex (\<lambda>el. element_id el = i) (doc_head doc)")
    case True
    then have "filter (\<lambda>el. element_id el = i) (doc_head doc) \<noteq> []"
      by (simp add: list_ex_iff filter_empty_conv)
    with Some True show ?thesis
      by (auto simp: style_routine_def elements_with_id_def filter_set_first_text
          split: list.splits)
  next
    case False
    then have "filter (\<lambda>el. element_id el = i) (doc_head doc) = []"
      by (simp add: list_ex_iff filter_empty_conv)
    with Some False ne show ?thesis
      by (auto simp: style_routine_def elements_with_id_def filter_set_first_text
          split: list.splits)
  qed
qed

lemma json_escape_plain:
  "c \<in> set hex_alphabet \<union> set ''vize-style-'' \<Longrightarrow> json_escape c = [c]"
  by (auto simp: hex_alphabet_def json_escape_def)

lemma JSON_stringify_plain:
  "set s \<subseteq> set hex_alphabet \<union> set ''vize-style-'' \<Longrightarrow>
     JSON_stringify s = [CHR 0x22] @ s @ [CHR 0x22]"
proof -
  assume a: "set s \<subseteq> set hex_alphabet \<union> set ''vize-style-''"
  have "concat (map json_escape s) = s"
    using a
  proof (induction s)
    case Nil
    then show ?case by simp
  next
    case (Cons x xs)
    then have "json_escape x = [x]" by (intro json_escape_plain) simp
    with Cons show ?case by simp
  qed
  then show ?thesis by (simp add: JSON_stringify_def)
qed

lemma style_preamble_text:
  "style_preamble cssCode cssId =
     [CHR 0x0A] @ ''const __vize_css__ = '' @ cssCode @ '';'' @ [CHR 0x0A]
     @ ''const __vize_css_id__ = '' @ cssId @ '';'' @ [CHR 0x0A]
     @ ''(function() {'' @ [CHR 0x0A]
     @ ''  if (typeof document !== '' @ [CHR 0x27] @ ''undefined'' @ [CHR 0x27] @ '') {''
     @ [CHR 0x0A]
     @ ''    let style = document.getElementById(__vize_css_id__);'' @ [CHR 0x0A]
     @ ''    if (!style) {'' @ [CHR 0x0A]
     @ ''      style = document.createElement('' @ [CHR 0x27] @ ''style'' @ [CHR 0x27] @ '');''
     @ [CHR 0x0A]
     @ ''      style.id = __vize_css_id__;'' @ [CHR 0x0A]
     @ ''      style.textContent = __vize_css__;'' @ [CHR 0x0A]
     @ ''      document.head.appendChild(style);'' @ [CHR 0x0A]
     @ ''    } else {'' @ [CHR 0x0A]
     @ ''      style.textContent = __vize_css__;'' @ [CHR 0x0A]
     @ ''    }'' @ [CHR 0x0A]
     @ ''  }'' @ [CHR 0x0A]
     @ ''})();'' @ [CHR 0x0A]"
  by (simp add: style_preamble_def nl_def)

text \<open>
  Claim C5, as the code has it. When the module's css is a string that is not empty
  (what \<^verbatim>\<open>if (compiled.css)\<close> tests), the output starts with the style routine, given
  here character by character, and goes on with the output of the same module without
  css. The routine declares \<^verbatim>\<open>__vize_css_id__\<close> as the JSON literal of
  \<^verbatim>\<open>vize-style-\<close> followed by the scopeId, a function of the scopeId alone (for a
  scopeId of hexadecimal digits the literal is that string between double quotes), and
  looks the id up with \<^verbatim>\<open>document.getElementById\<close>. Run in a document, the routine
  appends one \<^verbatim>\<open>style\<close> element with that id when there is none, and otherwise sets
  the text of the first element with that id and adds nothing; so the routines of two
  modules with the same scopeId, run one after the other in a document without such an
  element, leave exactly one, with the second module's css.
\<close>

theorem style_injection_dedup:
  assumes "css compiled = Some c" and "c \<noteq> []"
  shows "generateOutput compiled inProd inDev =
           [CHR 0x0A] @ ''const __vize_css__ = '' @ JSON_stringify c @ '';'' @ [CHR 0x0A]
           @ ''const __vize_css_id__ = '' @ JSON_stringify (''vize-style-'' @ scopeId compiled)
           @ '';'' @ [CHR 0x0A]
           @ ''(function() {'' @ [CHR 0x0A]
           @ ''  if (typeof document !== '' @ [CHR 0x27] @ ''undefined'' @ [CHR 0x27] @ '') {''
           @ [CHR 0x0A]
           @ ''    let style = document.getElementById(__vize_css_id__);'' @ [CHR 0x0A]
           @ ''    if (!style) {'' @ [CHR 0x0A]
           @ ''      style = document.createElement('' @ [CHR 0x27] @ ''style'' @ [CHR 0x27]
           @ '');'' @ [CHR 0x0A]
           @ ''      style.id = __vize_css_id__;'' @ [CHR 0x0A]
           @ ''      style.textContent = __vize_css__;'' @ [CHR 0x0A]
           @ ''      document.head.appendChild(style);'' @ [CHR 0x0A]
           @ ''    } else {'' @ [CHR 0x0A]
           @ ''      style.textContent = __vize_css__;'' @ [CHR 0x0A]
           @ ''    }'' @ [CHR 0x0A]
           @ ''  }'' @ [CHR 0x0A]
           @ ''})();'' @ [CHR 0x0A]
           @ generateOutput (compiled\<lparr>css := None\<rparr>) inProd inDev
         \<and> (set (scopeId compiled) \<subseteq> set hex_alphabet \<longrightarrow>
              JSON_stringify (''vize-style-'' @ scopeId compiled) =
                [CHR 0x22] @ ''vize-style-'' @ scopeId compiled @ [CHR 0x22])
         \<and> elements_with_id (''vize-style-'' @ scopeId compiled)
             (style_routine c (''vize-style-'' @ scopeId compiled) (Some doc)) =
             (case elements_with_id (''vize-style-'' @ scopeId compiled) (Some doc) of
                [] \<Rightarrow> [\<lparr>tagName = ''style'',
                        element_id = ''vize-style-'' @ scopeId compiled, textContent = c\<rparr>]
              | el # rest \<Rightarrow> el\<lparr>textContent := c\<rparr> # rest)
         \<and> (elements_with_id (''vize-style-'' @ scopeId compiled) (Some doc) = [] \<longrightarrow>
             (case style_routine c (''vize-style-'' @ scopeId compiled) (Some doc) of
                None \<Rightarrow> False
              | Some doc' \<Rightarrow>
                  elements_with_id (''vize-style-'' @ scopeId compiled)
                    (style_routine c2 (''vize-style-'' @ scopeId compiled) (Some doc')) =
                    [\<lparr>tagName = ''style'',
                      element_id = ''vize-style-'' @ scopeId compiled, textContent = c2\<rparr>]))"
proof -
  let ?i = "''vize-style-'' @ scopeId compiled"
  have "generateOutput compiled inProd inDev =
           style_preamble (JSON_stringify c) (JSON_stringify ?i)
           @ generateOutput (compiled\<lparr>css := None\<rparr>) inProd inDev"
    using assms by (simp add: generateOutput_parts style_element_id_def)
  then have a: "generateOutput compiled inProd inDev =
           [CHR 0x0A] @ ''const __vize_css__ = '' @ JSON_stringify c @ '';'' @ [CHR 0x0A]
           @ ''const __vize_css_id__ = '' @ JSON_stringify ?i
           @ '';'' @ [CHR 0x0A]
           @ ''(function() {'' @ [CHR 0x0A]
           @ ''  if (typeof document !== '' @ [CHR 0x27] @ ''undefined'' @ [CHR 0x27] @ '') {''
           @ [CHR 0x0A]
           @ ''    let style = document.getElementById(__vize_css_id__);'' @ [CHR 0x0A]
           @ ''    if (!style) {'' @ [CHR 0x0A]
           @ ''      style = document.createElement('' @ [CHR 0x27] @ ''style'' @ [CHR 0x27]
           @ '');'' @ [CHR 0x0A]
           @ ''      style.id = __vize_css_id__;'' @ [CHR 0x0A]
           @ ''      style.textContent = __vize_css__;'' @ [CHR 0x0A]
           @ ''      document.head.appendChild(style);'' @ [CHR 0x0A]
           @ ''    } else {'' @ [CHR 0x0A]
           @ ''      style.textContent = __vize_css__;'' @ [CHR 0x0A]
           @ ''    }'' @ [CHR 0x0A]
           @ ''  }'' @ [CHR 0x0A]
           @ ''})();'' @ [CHR 0x0A]
           @ generateOutput (compiled\<lparr>css := None\<rparr>) inProd inDev"
    by (simp only: style_preamble_text append_assoc)
  have l: "JSON_stringify ?i = [CHR 0x22] @ ''vize-style-'' @ scopeId compiled @ [CHR 0x22]"
    if "set (scopeId compiled) \<subseteq> set hex_alphabet"
    using JSON_stringify_plain [of ?i] that by auto
  have b: "elements_with_id ?i (style_routine c ?i (Some doc)) =
             (case elements_with_id ?i (Some doc) of
                [] \<Rightarrow> [\<lparr>tagName = ''style'', element_id = ?i, textContent = c\<rparr>]
              | el # rest \<Rightarrow> el\<lparr>textContent := c\<rparr> # rest)"
    by (rule elements_after_style_routine)
  have c: "case style_routine c ?i (Some doc) of
             None \<Rightarrow> False
           | Some doc' \<Rightarrow>
               elements_with_id ?i (style_routine c2 ?i (Some doc')) =
                 [\<lparr>tagName = ''style'', element_id = ?i, textContent = c2\<rparr>]"
    if none: "elements_with_id ?i (Some doc) = []"
  proof -
    from none have "getElementById doc ?i = None"
      by (simp add: getElementById_def find_None_filter elements_with_id_def)
    then obtain doc' where d: "style_routine c ?i (Some doc) = Some doc'"
      by (simp add: style_routine_def)
    from b none d have "elements_with_id ?i (Some doc') =
        [\<lparr>tagName = ''style'', element_id = ?i, textContent = c\<rparr>]"
      by simp
    then have "elements_with_id ?i (style_routine c2 ?i (Some doc')) =
        [\<lparr>tagName = ''style'', element_id = ?i, textContent = c2\<rparr>]"
      by (simp add: elements_after_style_routine)
    with d show ?thesis by simp
  qed
  from a l b c show ?thesis by blast
qed

theorem style_injection_dedup_witness:
  "css example_module = Some ''a{}''
   \<and> take 130 (generateOutput example_module True False) =
        [CHR 0x0A] @ ''const __vize_css__ = '' @ [CHR 0x22] @ ''a{}'' @ [CHR 0x22] @ '';''
        @ [CHR 0x0A]
        @ ''const __vize_css_id__ = '' @ [CHR 0x22] @ ''vize-style-c0cc6f12'' @ [CHR 0x22]
        @ '';'' @ [CHR 0x0A]
        @ ''(function() {'' @ [CHR 0x0A]
        @ ''  if (typeof document !== '' @ [CHR 0x27] @ ''undefined'' @ [CHR 0x27] @ '') {''
   \<and> str_includes ''let style = document.getElementById(__vize_css_id__);''
        (generateOutput example_module True False)
   \<and> (case style_routine ''a{}'' ''vize-style-c0cc6f12''
              (Some \<lparr>doc_head = [], doc_body = []\<rparr>) of
         None \<Rightarrow> False
       | Some doc' \<Rightarrow>
           elements_with_id ''vize-style-c0cc6f12''
             (style_routine ''b{}'' ''vize-style-c0cc6f12'' (Some doc')) =
             [\<lparr>tagName = ''style'', element_id = ''vize-style-c0cc6f12'', textContent = ''b{}''\<rparr>])"
proof -
  have h: "css example_module = Some ''a{}''" "''a{}'' \<noteq> []"
    by (simp_all add: example_module_def)
  have s: "scopeId example_module = ''c0cc6f12''"
    by (simp add: example_module_def)
  have e: "elements_with_id ''vize-style-c0cc6f12'' (Some \<lparr>doc_head = [], doc_body = []\<rparr>) = []"
    by (simp add: elements_with_id_def)
  have j: "JSON_stringify ''a{}'' = [CHR 0x22] @ ''a{}'' @ [CHR 0x22]"
    by (simp add: JSON_stringify_def json_escape_def)
  have x: "set ''c0cc6f12'' \<subseteq> set hex_alphabet"
    by (simp add: hex_alphabet_def)
  have k: "''vize-style-'' @ ''c0cc6f12'' = ''vize-style-c0cc6f12''"
    by simp
  note t = style_injection_dedup [OF h, of True False "\<lparr>doc_head = [], doc_body = []\<rparr>" "''b{}''",
      unfolded s k]
  from t x have lit: "JSON_stringify ''vize-style-c0cc6f12''
      = [CHR 0x22] @ ''vize-style-c0cc6f12'' @ [CHR 0x22]"
    by simp
  from t have out: "generateOutput example_module True False =
           [CHR 0x0A] @ ''const __vize_css__ = '' @ JSON_stringify ''a{}'' @ '';'' @ [CHR 0x0A]
           @ ''const __vize_css_id__ = '' @ JSON_stringify ''vize-style-c0cc6f12''
           @ '';'' @ [CHR 0x0A]
           @ ''(function() {'' @ [CHR 0x0A]
           @ ''  if (typeof document !== '' @ [CHR 0x27] @ ''undefined'' @ [CHR 0x27] @ '') {''
           @ [CHR 0x0A]
           @ ''    let style = document.getElementById(__vize_css_id__);'' @ [CHR 0x0A]
           @ ''    if (!style) {'' @ [CHR 0x0A]
           @ ''      style = document.createElement('' @ [CHR 0x27] @ ''style'' @ [CHR 0x27]
           @ '');'' @ [CHR 0x0A]
           @ ''      style.id = __vize_css_id__;'' @ [CHR 0x0A]
           @ ''      style.textContent = __vize_css__;'' @ [CHR 0x0A]
           @ ''      document.head.appendChild(style);'' @ [CHR 0x0A]
           @ ''    } else {'' @ [CHR 0x0A]
           @ ''      style.textContent = __vize_css__;'' @ [CHR 0x0A]
           @ ''    }'' @ [CHR 0x0A]
           @ ''  }'' @ [CHR 0x0A]
           @ ''})();'' @ [CHR 0x0A]
           @ generateOutput (example_module\<lparr>css := None\<rparr>) True False"
    by (rule conjunct1)
  have p1: "take 130 (generateOutput example_module True False) =
        [CHR 0x0A] @ ''const __vize_css__ = '' @ [CHR 0x22] @ ''a{}'' @ [CHR 0x22] @ '';''
        @ [CHR 0x0A]
        @ ''const __vize_css_id__ = '' @ [CHR 0x22] @ ''vize-style-c0cc6f12'' @ [CHR 0x22]
        @ '';'' @ [CHR 0x0A]
        @ ''(function() {'' @ [CHR 0x0A]
        @ ''  if (typeof document !== '' @ [CHR 0x27] @ ''undefined'' @ [CHR 0x27] @ '') {''"
    unfolding out j lit by simp
  have p2: "str_includes ''let style = document.getElementById(__vize_css_id__);''
        (generateOutput example_module True False)"
    unfolding out j lit by (simp add: example_module_def)
  from t e have p3: "case style_routine ''a{}'' ''vize-style-c0cc6f12''
              (Some \<lparr>doc_head = [], doc_body = []\<rparr>) of
         None \<Rightarrow> False
       | Some doc' \<Rightarrow>
           elements_with_id ''vize-style-c0cc6f12''
             (style_routine ''b{}'' ''vize-style-c0cc6f12'' (Some doc')) =
             [\<lparr>tagName = ''style'', element_id = ''vize-style-c0cc6f12'', textContent = ''b{}''\<rparr>]"
    by blast
  from h(1) p1 p2 p3 show ?thesis by (intro conjI)
qed

text \<open>
  Claim C5 as stated fails on a css that is present and empty: the output is the
  rewritten code alone, with no style routine before it.
\<close>

theorem style_injection_empty_css_counterexample:
  "css (example_module\<lparr>css := Some []\<rparr>) = Some []
   \<and> generateOutput (example_module\<lparr>css := Some []\<rparr>) True False =
       ''a; const _sfc_main = 1; export default 2'' @ [CHR 0x0A] @ ''export default _sfc_main;''
   \<and> \<not> str_includes ''getElementById''
         (generateOutput (example_module\<lparr>css := Some []\<rparr>) True False)"
proof -
  have g: "generateOutput (example_module\<lparr>css := Some []\<rparr>) True False =
       ''a; const _sfc_main = 1; export default 2'' @ [CHR 0x0A] @ ''export default _sfc_main;''"
    by (simp add: generateOutput_def example_module_def export_marker_def
        sfc_main_binding_def reexport_stmt_def nl_def Let_def)
  show ?thesis
    unfolding g by (simp add: example_module_def)
qed

section \<open>The scope identifier is eight hexadecimal digits\<close>

lemma hex_digit_in: "hex_digit n \<in> set hex_alphabet"
  unfolding hex_digit_def by (rule nth_mem) (simp add: hex_alphabet_def)

lemma length_hex32: "length (hex32 w) = 8"
  by (simp add: hex32_def)

lemma set_hex32: "set (hex32 w) \<subseteq> set hex_alphabet"
  unfolding hex32_def using hex_digit_in by auto

lemma length_digest_words: "length (digest_words r) = 8"
  by (cases r rule: digest_words.cases) simp

lemma length_concat_hex32: "length (concat (map hex32 ws)) = 8 * length ws"
  by (induction ws) (simp_all add: length_hex32)

lemma length_sha256_hex: "length (sha256_hex s) = 64"
  by (simp add: sha256_hex_def length_concat_hex32 length_digest_words)

lemma set_sha256_hex: "set (sha256_hex s) \<subseteq> set hex_alphabet"
  unfolding sha256_hex_def using set_hex32 by auto

text \<open>The model of the digest agrees with Node on a path of the playground.\<close>

lemma generateScopeId_example: "generateScopeId ''/src/App.vue'' = ''c0cc6f12''"
  by code_simp

text \<open>
  Claim C7. \<^verbatim>\<open>generateScopeId\<close> is a function of the path string alone (it reads no
  state and no clock, so two calls on one path give one result), and for every path its
  result has eight characters, each a lowercase hexadecimal digit.
\<close>

theorem generateScopeId_hex8:
  "length (generateScopeId filePath) = 8
   \<and> set (generateScopeId filePath) \<subseteq> set hex_alphabet"
proof
  show "length (generateScopeId filePath) = 8"
    by (simp add: generateScopeId_def length_sha256_hex)
  have "set (take 8 (sha256_hex filePath)) \<subseteq> set (sha256_hex filePath)"
    by (rule set_take_subset)
  with set_sha256_hex [of filePath]
  show "set (generateScopeId filePath) \<subseteq> set hex_alphabet"
    unfolding generateScopeId_def by (rule subset_trans [rotated])
qed

theorem generateScopeId_hex8_witness:
  "generateScopeId ''/src/App.vue'' = ''c0cc6f12''
   \<and> length (generateScopeId ''/src/App.vue'') = 8
   \<and> set (generateScopeId ''/src/App.vue'') \<subseteq> set hex_alphabet"
  using generateScopeId_hex8 [of "''/src/App.vue''"] generateScopeId_example by simp

section \<open>Loading a style request\<close>

text \<open>
  Claim C9. On an id that contains \<^verbatim>\<open>?vue&type=style\<close>, \<^verbatim>\<open>load\<close> never returns
  \<^verbatim>\<open>null\<close>: it returns the css of the module cached under the real path of the id
  (the text before the first \<^verbatim>\<open>?\<close>, decoded when it is a virtual id), and the empty
  string when there is no such module or the module has no css.
\<close>

theorem load_style_query:
  assumes "str_includes style_query ident"
  shows "load st ident =
           LoadString
             (let filename = takeWhile (\<lambda>c. c \<noteq> CHR ''?'') ident;
                  realPath = (if prefix VIRTUAL_PREFIX filename
                              then real_of_virtual st filename else filename)
              in case cache st realPath of
                   None \<Rightarrow> []
                 | Some compiled \<Rightarrow> (case css compiled of None \<Rightarrow> [] | Some c \<Rightarrow> c))
         \<and> load st ident \<noteq> LoadNull"
  using assms by (simp add: load_def Let_def split: option.splits)

theorem load_style_query_witness:
  "str_includes style_query ''/app/B.vue?vue&type=style&index=0''
   \<and> load (initial_state\<lparr>cache := [''/app/B.vue'' \<mapsto> example_module]\<rparr>)
        ''/app/B.vue?vue&type=style&index=0'' = LoadString ''a{}''
   \<and> load initial_state ''/app/B.vue?vue&type=style&index=0'' = LoadString []"
proof -
  have h: "str_includes style_query ''/app/B.vue?vue&type=style&index=0''"
    by (simp add: style_query_def)
  from load_style_query [OF h, of "initial_state\<lparr>cache := [''/app/B.vue'' \<mapsto> example_module]\<rparr>"]
       load_style_query [OF h, of initial_state] h
  show ?thesis
    by (simp add: VIRTUAL_PREFIX_def initial_state_def example_module_def)
qed

section \<open>The example run\<close>

lemma example_compile_A:
  "compileFile (example_env found) ''/app/A.vue'' c (True, False) None =
     (Inr \<lparr>code = ''export default {}'', css = None,
           scopeId = generateScopeId ''/app/A.vue'', hasScoped = False\<rparr>,
      c(''/app/A.vue'' \<mapsto> \<lparr>code = ''export default {}'', css = None,
           scopeId = generateScopeId ''/app/A.vue'', hasScoped = False\<rparr>), [])"
  by (simp add: compileFile_def loadNative_def example_env_def example_files_def
      example_compileSfc_def Let_def)

lemma example_compile_B:
  "compileFile (example_env found) ''/app/B.vue'' c (True, False) None =
     (Inr \<lparr>code = ''export default {}'', css = Some ''a{}'',
           scopeId = generateScopeId ''/app/B.vue'', hasScoped = True\<rparr>,
      c(''/app/B.vue'' \<mapsto> \<lparr>code = ''export default {}'', css = Some ''a{}'',
           scopeId = generateScopeId ''/app/B.vue'', hasScoped = True\<rparr>),
      [CompilationError ''/app/B.vue'' [''no template'']])"
  by (simp add: compileFile_def loadNative_def example_env_def example_files_def
      example_compileSfc_def is_word_char_def Let_def)

lemma example_compile_C:
  "compileFile (example_env found) ''/app/C.vue'' c (True, False) None =
     (Inl (FsError ''/app/C.vue''), c, [])"
  by (simp add: compileFile_def loadNative_def example_env_def example_files_def Let_def)

lemma example_flags: "compile_flags default_options example_configured = (True, False)"
  by (simp add: compile_flags_def default_options_def example_configured_def
      configResolved_def not_production_def)

lemma example_configured_fields:
  "cache example_configured = Map.empty" "virtualToReal example_configured = Map.empty"
  "console example_configured = []" "root example_configured = Some ''/app''"
  by (simp_all add: example_configured_def configResolved_def initial_state_def
      default_options_def)

section \<open>\<^verbatim>\<open>compileFile\<close> and the cache\<close>

lemma compileFile_cache:
  "compileFile e filePath c flags src = (r, c', lg) \<Longrightarrow>
     c' = (case r of Inl err \<Rightarrow> c | Inr compiled \<Rightarrow> c(filePath \<mapsto> compiled))"
  by (auto simp: compileFile_def Let_def split: sum.splits option.splits)

lemma compileFile_outcome:
  "fst (compileFile e filePath c flags src) = fst (compileFile e filePath c' flags src)"
  by (simp add: compileFile_def Let_def split: sum.splits option.splits)

lemma compileFile_throws_iff:
  "compileFile e filePath c flags None = (r, c', lg) \<Longrightarrow> isl r = compile_throws e flags filePath"
  unfolding compile_throws_def using compileFile_outcome [of e filePath c flags None Map.empty]
  by simp

text \<open>
  Claim C1, as the code has it. Whenever \<^verbatim>\<open>compileFile\<close> gets a result from the native
  compiler, it stores the module built from that result under the path, replacing what
  was there, whether or not the result's error list is empty; a list that is not empty
  is logged. The cache is left as it was, and nothing is logged, exactly when the call
  throws: the native binding cannot be loaded, the file cannot be read, or the compiler
  throws.
\<close>

theorem compileFile_cache_update:
  assumes "compileFile e filePath c flags src = (r, c', lg)"
  shows "(case r of
            Inl err \<Rightarrow> c' = c \<and> lg = []
          | Inr compiled \<Rightarrow> c' = c(filePath \<mapsto> compiled))
         \<and> (\<forall>compile content result.
               native e = Some compile
               \<and> (case src of Some s \<Rightarrow> Inr s | None \<Rightarrow> readFileSync e filePath) = Inr content
               \<and> compile content
                    \<lparr>filename = filePath, sourceMap = fst flags, ssr = snd flags,
                     scopeAttr = (if has_scoped_style content
                                  then Some (''data-v-'' @ generateScopeId filePath) else None)\<rparr>
                   = Inr result
               \<longrightarrow> c' filePath =
                     Some \<lparr>code = res_code result, css = res_css result,
                           scopeId = generateScopeId filePath,
                           hasScoped = has_scoped_style content\<rparr>
                   \<and> (errors result \<noteq> [] \<longrightarrow>
                        CompilationError filePath (errors result) \<in> set lg))"
  using assms
  by (auto simp: compileFile_def loadNative_def Let_def split: sum.splits option.splits)

theorem compileFile_cache_update_witness:
  "compileFile (example_env []) ''/app/A.vue'' Map.empty (True, False) (Some ''<p></p>'')
     = (Inr \<lparr>code = ''export default {}'', css = None,
              scopeId = generateScopeId ''/app/A.vue'', hasScoped = False\<rparr>,
        [''/app/A.vue'' \<mapsto> \<lparr>code = ''export default {}'', css = None,
              scopeId = generateScopeId ''/app/A.vue'', hasScoped = False\<rparr>],
        [CompilationError ''/app/A.vue'' [''no template'']])
   \<and> compileFile (example_env []) ''/app/C.vue'' [''/app/A.vue'' \<mapsto> example_module]
         (True, False) None
     = (Inl (FsError ''/app/C.vue''), [''/app/A.vue'' \<mapsto> example_module], [])"
proof -
  have a: "compileFile (example_env []) ''/app/A.vue'' Map.empty (True, False) (Some ''<p></p>'')
     = (Inr \<lparr>code = ''export default {}'', css = None,
              scopeId = generateScopeId ''/app/A.vue'', hasScoped = False\<rparr>,
        fst (snd (compileFile (example_env []) ''/app/A.vue'' Map.empty (True, False)
                    (Some ''<p></p>''))),
        [CompilationError ''/app/A.vue'' [''no template'']])"
    by (simp add: compileFile_def loadNative_def example_env_def example_compileSfc_def Let_def)
  have b: "compileFile (example_env []) ''/app/C.vue'' [''/app/A.vue'' \<mapsto> example_module]
         (True, False) None
     = (Inl (FsError ''/app/C.vue''),
        fst (snd (compileFile (example_env []) ''/app/C.vue'' [''/app/A.vue'' \<mapsto> example_module]
         (True, False) None)), [])"
    by (simp add: compileFile_def loadNative_def example_env_def example_files_def Let_def)
  from compileFile_cache_update [OF a] compileFile_cache_update [OF b] a b
  show ?thesis by simp
qed

text \<open>
  Claim C1 as stated fails: the stand-in compiler returns the error list
  \<^verbatim>\<open>['no template']\<close> for a source without a template, and \<^verbatim>\<open>compileFile\<close>
  creates the entry of a path that had none and replaces the module of a path that had
  one.
\<close>

theorem compileFile_errors_counterexample:
  "example_compileSfc ''<p></p>''
     \<lparr>filename = ''/app/A.vue'', sourceMap = True, ssr = False, scopeAttr = None\<rparr>
     = Inr \<lparr>res_code = ''export default {}'', res_css = None,
            errors = [''no template''], warnings = []\<rparr>
   \<and> fst (snd (compileFile (example_env []) ''/app/A.vue'' Map.empty (True, False)
                  (Some ''<p></p>''))) ''/app/A.vue''
       = Some \<lparr>code = ''export default {}'', css = None,
               scopeId = generateScopeId ''/app/A.vue'', hasScoped = False\<rparr>
   \<and> fst (snd (compileFile (example_env []) ''/app/A.vue'' [''/app/A.vue'' \<mapsto> example_module]
                  (True, False) (Some ''<p></p>''))) ''/app/A.vue''
       \<noteq> Some example_module"
  by (simp add: compileFile_def loadNative_def example_env_def example_compileSfc_def
      example_module_def Let_def)

section \<open>The startup pass\<close>

lemma compileAll_loop_result:
  "compileAll_loop e flags files (c, out, s, n) = (c', out', s', n') \<Longrightarrow>
     dom c' = dom c \<union> {f \<in> set files. \<not> compile_throws e flags f}
     \<and> s' = s + length (filter (\<lambda>f. \<not> compile_throws e flags f) files)
     \<and> n' = n + length (filter (compile_throws e flags) files)"
proof (induction files arbitrary: c out s n)
  case Nil
  then show ?case by simp
next
  case (Cons f fs)
  obtain r c1 lg where step: "compileFile e f c flags None = (r, c1, lg)"
    by (cases "compileFile e f c flags None") auto
  note cache1 = compileFile_cache [OF step]
  note throws = compileFile_throws_iff [OF step]
  show ?case
  proof (cases r)
    case (Inl err)
    with step Cons.prems have
      "compileAll_loop e flags fs (c1, out @ lg @ [FailedToCompile f err], s, n + 1)
         = (c', out', s', n')"
      by simp
    from Cons.IH [OF this] Inl cache1 throws show ?thesis by (auto split: if_splits)
  next
    case (Inr compiled)
    with step Cons.prems have
      "compileAll_loop e flags fs (c1, out @ lg, s + 1, n) = (c', out', s', n')"
      by simp
    from Cons.IH [OF this] Inr cache1 throws show ?thesis by (auto split: if_splits)
  qed
qed

lemma compileAll_virtualToReal:
  "compileAll e options st = Inr st' \<Longrightarrow> virtualToReal st' = virtualToReal st"
  by (auto simp: compileAll_def split: sum.splits prod.splits)

text \<open>
  Claim C2, as the code has it. After a \<^verbatim>\<open>buildStart\<close> on an empty cache, over the
  \<open>N\<close> distinct files the scan found, the cache has an entry for each file on which
  \<^verbatim>\<open>compileFile\<close> did not throw: \<open>N - E\<close> entries, where \<open>E\<close> counts the files on
  which it threw, and the last line logged reports \<open>N - E\<close> succeeded and \<open>E\<close> failed. A
  file whose compile result carries errors is not among the \<open>E\<close>.
\<close>

theorem buildStart_cache_population:
  assumes "buildStart e options st = Inr st'"
    and "glob e (scanPatterns options) (root st) (ignorePatterns options) = Inr files"
    and "distinct files"
    and "cache st = Map.empty"
  shows "dom (cache st') = {f \<in> set files. \<not> compile_throws e (compile_flags options st) f}
         \<and> card (dom (cache st')) =
             length files - length (filter (compile_throws e (compile_flags options st)) files)
         \<and> last (console st') =
             PreCompilationComplete
               (length files - length (filter (compile_throws e (compile_flags options st)) files))
               (length (filter (compile_throws e (compile_flags options st)) files))"
proof -
  let ?flags = "compile_flags options st"
  obtain c out s n where
    loop: "compileAll_loop e ?flags files
             (cache st, console st @ [PreCompiling (length files)], 0, 0) = (c, out, s, n)"
    by (metis prod_cases4)
  with assms(1,2) have st': "st' = st\<lparr>cache := c, console := out @ [PreCompilationComplete s n]\<rparr>"
    by (simp add: buildStart_def compileAll_def)
  from compileAll_loop_result [OF loop] assms(4)
  have d: "dom c = {f \<in> set files. \<not> compile_throws e ?flags f}"
    and s: "s = length (filter (\<lambda>f. \<not> compile_throws e ?flags f) files)"
    and n: "n = length (filter (compile_throws e ?flags) files)"
    by simp_all
  have split: "length (filter (\<lambda>f. \<not> compile_throws e ?flags f) files)
       = length files - length (filter (compile_throws e ?flags) files)"
    using sum_length_filter_compl [of "compile_throws e ?flags" files] by simp
  have "distinct (filter (\<lambda>f. \<not> compile_throws e ?flags f) files)"
    using assms(3) by simp
  then have "card (set (filter (\<lambda>f. \<not> compile_throws e ?flags f) files))
       = length (filter (\<lambda>f. \<not> compile_throws e ?flags f) files)"
    by (rule distinct_card)
  then have "card {f \<in> set files. \<not> compile_throws e ?flags f}
       = length (filter (\<lambda>f. \<not> compile_throws e ?flags f) files)"
    by simp
  with d s n split st' show ?thesis by simp
qed

lemma example_buildStart:
  "buildStart (example_env [''/app/A.vue'', ''/app/B.vue'', ''/app/C.vue''])
     default_options example_configured = Inr example_started"
  by (simp add: example_started_def buildStart_def compileAll_def example_env_def
      split: prod.splits)

lemma example_started_fields:
  "cache example_started =
     [''/app/A.vue'' \<mapsto> \<lparr>code = ''export default {}'', css = None,
           scopeId = generateScopeId ''/app/A.vue'', hasScoped = False\<rparr>,
      ''/app/B.vue'' \<mapsto> \<lparr>code = ''export default {}'', css = Some ''a{}'',
           scopeId = generateScopeId ''/app/B.vue'', hasScoped = True\<rparr>]"
  "virtualToReal example_started = Map.empty"
  "console example_started =
     [PreCompiling 3, CompilationError ''/app/B.vue'' [''no template''],
      FailedToCompile ''/app/C.vue'' (FsError ''/app/C.vue''), PreCompilationComplete 2 1]"
proof -
  have glob: "glob (example_env [''/app/A.vue'', ''/app/B.vue'', ''/app/C.vue'']) ps cwd ign
        = Inr [''/app/A.vue'', ''/app/B.vue'', ''/app/C.vue'']" for ps cwd ign
    by (simp add: example_env_def)
  show "cache example_started =
     [''/app/A.vue'' \<mapsto> \<lparr>code = ''export default {}'', css = None,
           scopeId = generateScopeId ''/app/A.vue'', hasScoped = False\<rparr>,
      ''/app/B.vue'' \<mapsto> \<lparr>code = ''export default {}'', css = Some ''a{}'',
           scopeId = generateScopeId ''/app/B.vue'', hasScoped = True\<rparr>]"
    by (simp add: example_started_def buildStart_def compileAll_def glob example_flags
        example_compile_A example_compile_B example_compile_C example_configured_fields)
  show "virtualToReal example_started = Map.empty"
    using compileAll_virtualToReal [OF example_buildStart [unfolded buildStart_def]]
    by (simp add: example_configured_fields)
  show "console example_started =
     [PreCompiling 3, CompilationError ''/app/B.vue'' [''no template''],
      FailedToCompile ''/app/C.vue'' (FsError ''/app/C.vue''), PreCompilationComplete 2 1]"
    by (simp add: example_started_def buildStart_def compileAll_def glob example_flags
        example_compile_A example_compile_B example_compile_C example_configured_fields)
qed

lemma example_throws:
  "\<not> compile_throws (example_env found) (True, False) ''/app/A.vue''"
  "\<not> compile_throws (example_env found) (True, False) ''/app/B.vue''"
  "compile_throws (example_env found) (True, False) ''/app/C.vue''"
  by (simp_all add: compile_throws_def example_compile_A example_compile_B example_compile_C)

theorem buildStart_cache_population_witness:
  "buildStart (example_env [''/app/A.vue'', ''/app/B.vue'', ''/app/C.vue''])
     default_options example_configured = Inr example_started
   \<and> distinct [''/app/A.vue'', ''/app/B.vue'', ''/app/C.vue'']
   \<and> cache example_configured = Map.empty
   \<and> dom (cache example_started) = {''/app/A.vue'', ''/app/B.vue''}
   \<and> card (dom (cache example_started)) = 2
   \<and> last (console example_started) = PreCompilationComplete 2 1"
proof -
  have g: "glob (example_env [''/app/A.vue'', ''/app/B.vue'', ''/app/C.vue''])
             (scanPatterns default_options) (root example_configured)
             (ignorePatterns default_options)
           = Inr [''/app/A.vue'', ''/app/B.vue'', ''/app/C.vue'']"
    by (simp add: example_env_def)
  have d: "distinct [''/app/A.vue'', ''/app/B.vue'', ''/app/C.vue'']"
    by simp
  have c: "cache example_configured = Map.empty"
    by (simp add: example_configured_fields)
  have t: "filter (compile_throws (example_env [''/app/A.vue'', ''/app/B.vue'', ''/app/C.vue''])
               (compile_flags default_options example_configured))
             [''/app/A.vue'', ''/app/B.vue'', ''/app/C.vue''] = [''/app/C.vue'']"
    by (simp add: example_flags example_throws)
  have k: "{f \<in> set [''/app/A.vue'', ''/app/B.vue'', ''/app/C.vue''].
             \<not> compile_throws (example_env [''/app/A.vue'', ''/app/B.vue'', ''/app/C.vue''])
                  (compile_flags default_options example_configured) f}
           = {''/app/A.vue'', ''/app/B.vue''}"
    using example_throws [of "[''/app/A.vue'', ''/app/B.vue'', ''/app/C.vue'']"]
    unfolding example_flags by auto
  from buildStart_cache_population [OF example_buildStart g d c]
  have "dom (cache example_started) = {''/app/A.vue'', ''/app/B.vue''}
        \<and> card (dom (cache example_started)) = 2
        \<and> last (console example_started) = PreCompilationComplete 2 1"
    unfolding t k by simp
  with example_buildStart d c show ?thesis by simp
qed

text \<open>
  Claim C2 as stated fails: of two files found, one compiles with an error in its error
  list, and the cache has two entries afterwards, not one.
\<close>

theorem buildStart_errors_counterexample:
  "(case buildStart (example_env [''/app/A.vue'', ''/app/B.vue'']) default_options
           example_configured of
      Inl err \<Rightarrow> False
    | Inr st' \<Rightarrow>
        console st' =
          [PreCompiling 2, CompilationError ''/app/B.vue'' [''no template''],
           PreCompilationComplete 2 0]
        \<and> dom (cache st') = {''/app/A.vue'', ''/app/B.vue''}
        \<and> card (dom (cache st')) = 2)"
proof -
  have glob: "glob (example_env [''/app/A.vue'', ''/app/B.vue'']) ps cwd ign
        = Inr [''/app/A.vue'', ''/app/B.vue'']" for ps cwd ign
    by (simp add: example_env_def)
  show ?thesis
    by (simp add: buildStart_def compileAll_def glob example_flags
        example_compile_A example_compile_B example_configured_fields insert_commute)
qed

section \<open>Resolving ids\<close>

text \<open>
  Claim C3, as the code has it. An id that contains \<^verbatim>\<open>?vue&type=style\<close> is returned
  as it is. For every other id, \<^verbatim>\<open>resolveId\<close> returns \<^verbatim>\<open>null\<close> when the id does not
  end in \<^verbatim>\<open>.vue\<close>, and when it does but the path it resolves to has no cache entry;
  it returns an id only for an id ending in \<^verbatim>\<open>.vue\<close> whose resolved path has a cache
  entry, and that id is the prefix followed by the resolved path, which it records in
  \<^verbatim>\<open>virtualToReal\<close>.
\<close>

theorem resolveId_not_handled:
  "(str_includes style_query ident \<longrightarrow> resolveId e st ident importer = Inr (Some ident, st))
   \<and> (\<not> str_includes style_query ident \<longrightarrow>
        (\<not> suffix ''.vue'' ident \<longrightarrow> resolveId e st ident importer = Inr (None, st))
        \<and> (\<forall>resolved. suffix ''.vue'' ident
              \<and> resolveVuePath e st ident importer = Inr resolved
              \<and> cache st resolved = None
              \<longrightarrow> resolveId e st ident importer = Inr (None, st))
        \<and> (\<forall>v st'. resolveId e st ident importer = Inr (Some v, st')
              \<longrightarrow> suffix ''.vue'' ident
                  \<and> (\<exists>resolved. resolveVuePath e st ident importer = Inr resolved
                        \<and> cache st resolved \<noteq> None
                        \<and> v = VIRTUAL_PREFIX @ resolved
                        \<and> st' = st\<lparr>virtualToReal :=
                                     (virtualToReal st)(VIRTUAL_PREFIX @ resolved \<mapsto> resolved)\<rparr>)))"
  by (auto simp: resolveId_def Let_def split: if_splits sum.splits)

lemma example_resolveId_step:
  "resolveId (example_env []) example_started ''/app/A.vue'' None =
     Inr (Some (VIRTUAL_PREFIX @ ''/app/A.vue''),
          example_started\<lparr>virtualToReal := [VIRTUAL_PREFIX @ ''/app/A.vue'' \<mapsto> ''/app/A.vue'']\<rparr>)"
proof -
  have n: "posix_normalize ''/app/A.vue'' = ''/app/A.vue''"
    by (simp add: posix_normalize_def posix_isAbsolute_def normalizeString_def
        path_segments_def Let_def)
  have r: "resolveVuePath (example_env []) example_started ''/app/A.vue'' None
             = Inr ''/app/A.vue''"
    by (simp add: resolveVuePath_def example_env_def posix_isAbsolute_def n)
  have s: "suffix ''.vue'' ''/app/A.vue''"
    by (simp add: suffix_def)
  show ?thesis
    by (simp add: resolveId_def style_query_def s r example_started_fields Let_def)
qed

lemma example_resolved_eq:
  "example_resolved =
     example_started\<lparr>virtualToReal := [VIRTUAL_PREFIX @ ''/app/A.vue'' \<mapsto> ''/app/A.vue'']\<rparr>"
  by (simp add: example_resolved_def example_resolveId_step)

lemma example_resolveId:
  "resolveId (example_env []) example_started ''/app/A.vue'' None =
     Inr (Some (VIRTUAL_PREFIX @ ''/app/A.vue''), example_resolved)"
  by (simp add: example_resolveId_step example_resolved_eq)

lemma example_resolved_fields:
  "cache example_resolved = cache example_started"
  "virtualToReal example_resolved = [VIRTUAL_PREFIX @ ''/app/A.vue'' \<mapsto> ''/app/A.vue'']"
  by (simp_all add: example_resolved_eq)

theorem resolveId_not_handled_witness:
  "resolveId (example_env []) example_started ''/app/A.vue'' None =
     Inr (Some (VIRTUAL_PREFIX @ ''/app/A.vue''), example_resolved)
   \<and> cache example_started ''/app/A.vue'' \<noteq> None
   \<and> resolveId (example_env []) example_started ''/app/main.js'' None
       = Inr (None, example_started)
   \<and> resolveId (example_env []) example_started ''/app/C.vue'' None
       = Inr (None, example_started)
   \<and> resolveId (example_env []) example_started ''/app/C.vue?vue&type=style'' None
       = Inr (Some ''/app/C.vue?vue&type=style'', example_started)"
proof -
  have n: "posix_normalize ''/app/C.vue'' = ''/app/C.vue''"
    by (simp add: posix_normalize_def posix_isAbsolute_def normalizeString_def
        path_segments_def Let_def)
  have r: "resolveVuePath (example_env []) example_started ''/app/C.vue'' None
             = Inr ''/app/C.vue''"
    by (simp add: resolveVuePath_def example_env_def posix_isAbsolute_def n)
  have c: "cache example_started ''/app/C.vue'' = None"
    by (simp add: example_started_fields)
  have a: "cache example_started ''/app/A.vue'' \<noteq> None"
    by (simp add: example_started_fields)
  have q: "\<not> str_includes style_query ''/app/main.js''"
    "\<not> str_includes style_query ''/app/C.vue''"
    "str_includes style_query ''/app/C.vue?vue&type=style''"
    by (simp_all add: style_query_def)
  have s: "\<not> suffix ''.vue'' ''/app/main.js''" "suffix ''.vue'' ''/app/C.vue''"
    by (simp_all add: suffix_def)
  note main = resolveId_not_handled [of "''/app/main.js''" "example_env []" example_started None]
  note comp = resolveId_not_handled [of "''/app/C.vue''" "example_env []" example_started None]
  note style = resolveId_not_handled [of "''/app/C.vue?vue&type=style''" "example_env []"
      example_started None]
  have m: "resolveId (example_env []) example_started ''/app/main.js'' None
          = Inr (None, example_started)"
    by (rule main [THEN conjunct2, THEN mp, OF q(1), THEN conjunct1, THEN mp, OF s(1)])
  have u: "resolveId (example_env []) example_started ''/app/C.vue'' None
          = Inr (None, example_started)"
    by (rule comp [THEN conjunct2, THEN mp, OF q(2), THEN conjunct2, THEN conjunct1,
          THEN spec, THEN mp, OF conjI [OF s(2) conjI [OF r c]]])
  have y: "resolveId (example_env []) example_started ''/app/C.vue?vue&type=style'' None
          = Inr (Some ''/app/C.vue?vue&type=style'', example_started)"
    by (rule style [THEN conjunct1, THEN mp, OF q(3)])
  from m u y
  have "resolveId (example_env []) example_started ''/app/main.js'' None
          = Inr (None, example_started)
        \<and> resolveId (example_env []) example_started ''/app/C.vue'' None
          = Inr (None, example_started)
        \<and> resolveId (example_env []) example_started ''/app/C.vue?vue&type=style'' None
          = Inr (Some ''/app/C.vue?vue&type=style'', example_started)"
    by (intro conjI)
  with example_resolveId a show ?thesis by (intro conjI) simp_all
qed

text \<open>
  Claim C3 as stated fails: an id with the style query does not end in \<^verbatim>\<open>.vue\<close>, and
  \<^verbatim>\<open>resolveId\<close> returns it, with no cache entry for its file.
\<close>

theorem resolveId_style_query_counterexample:
  "\<not> suffix ''.vue'' ''/app/Z.vue?vue&type=style&index=0''
   \<and> cache initial_state ''/app/Z.vue'' = None
   \<and> resolveId (example_env []) initial_state ''/app/Z.vue?vue&type=style&index=0'' None
       = Inr (Some ''/app/Z.vue?vue&type=style&index=0'', initial_state)"
  by (simp add: resolveId_def style_query_def initial_state_def suffix_def)

section \<open>The registry of virtual ids\<close>

lemma registry_invariant:
  "reachable options st \<Longrightarrow> virtualToReal st k = Some v \<Longrightarrow> k = VIRTUAL_PREFIX @ v"
proof (induction arbitrary: k v rule: reachable.induct)
  case reach_init
  then show ?case by (simp add: initial_state_def)
next
  case (reach_configResolved st resolvedConfig)
  then show ?case by (simp add: configResolved_def)
next
  case (reach_configureServer st)
  then show ?case by (simp add: configureServer_def)
next
  case (reach_buildStart st e st')
  then show ?case by (simp add: buildStart_def compileAll_virtualToReal)
next
  case (reach_resolveId st e ident importer r st')
  from reach_resolveId.hyps(2)
  have "virtualToReal st' = virtualToReal st
        \<or> (\<exists>resolved. virtualToReal st' =
              (virtualToReal st)(VIRTUAL_PREFIX @ resolved \<mapsto> resolved))"
    by (auto simp: resolveId_def Let_def split: if_splits sum.splits)
  with reach_resolveId.IH reach_resolveId.prems show ?case
    by (auto split: if_splits)
next
  case (reach_handleHotUpdate st e f readResult getModulesByFile ms st')
  from reach_handleHotUpdate.hyps(2) have "virtualToReal st' = virtualToReal st"
    by (auto simp: handleHotUpdate_def Let_def split: if_splits sum.splits prod.splits)
  with reach_handleHotUpdate.IH reach_handleHotUpdate.prems show ?case by simp
qed

lemma example_reachable: "reachable default_options example_resolved"
proof -
  have "reachable default_options example_configured"
    unfolding example_configured_def by (intro reach_configResolved reach_init)
  then have "reachable default_options example_started"
    using example_buildStart by (rule reach_buildStart)
  then show ?thesis
    using example_resolveId by (rule reach_resolveId)
qed

text \<open>
  Claim C8. In every state of a plugin instance, each key of \<^verbatim>\<open>virtualToReal\<close> starts
  with the prefix and is mapped to the key without the prefix, so that the table and
  prefix stripping decode the key to the same path.
\<close>

theorem registry_agrees:
  assumes "reachable options st" and "virtualToReal st k = Some v"
  shows "prefix VIRTUAL_PREFIX k \<and> v = drop (length VIRTUAL_PREFIX) k
         \<and> real_of_virtual st k = drop (length VIRTUAL_PREFIX) k"
  using registry_invariant [OF assms] assms(2) by (simp add: real_of_virtual_def)

theorem registry_agrees_witness:
  "reachable default_options example_resolved
   \<and> virtualToReal example_resolved (VIRTUAL_PREFIX @ ''/app/A.vue'') = Some ''/app/A.vue''
   \<and> prefix VIRTUAL_PREFIX (VIRTUAL_PREFIX @ ''/app/A.vue'')
   \<and> ''/app/A.vue'' = drop (length VIRTUAL_PREFIX) (VIRTUAL_PREFIX @ ''/app/A.vue'')
   \<and> real_of_virtual example_resolved (VIRTUAL_PREFIX @ ''/app/A.vue'')
       = drop (length VIRTUAL_PREFIX) (VIRTUAL_PREFIX @ ''/app/A.vue'')"
proof -
  have v: "virtualToReal example_resolved (VIRTUAL_PREFIX @ ''/app/A.vue'') = Some ''/app/A.vue''"
    by (simp add: example_resolved_fields)
  from registry_agrees [OF example_reachable v] example_reachable v
  show ?thesis by (intro conjI) simp_all
qed

text \<open>
  Claim C4. In every state of a plugin instance, for every path with a cache entry, the
  virtual id made of the prefix and the path decodes (table first, prefix stripping
  otherwise) to the path; so \<^verbatim>\<open>load\<close> on that id, when it is not a style request,
  gives the output synthesized from the module cached under the path.
\<close>

theorem virtual_id_round_trip:
  assumes "reachable options st" and "cache st p = Some m"
  shows "real_of_virtual st (VIRTUAL_PREFIX @ p) = p
         \<and> (\<not> str_includes style_query (VIRTUAL_PREFIX @ p) \<longrightarrow>
              load st (VIRTUAL_PREFIX @ p) =
                LoadCode (generateOutput m (\<not> not_production st) (server st)))"
proof -
  have rt: "real_of_virtual st (VIRTUAL_PREFIX @ p) = p"
  proof (cases "virtualToReal st (VIRTUAL_PREFIX @ p)")
    case None
    then show ?thesis by (simp add: real_of_virtual_def)
  next
    case (Some v)
    from registry_invariant [OF assms(1) Some] Some show ?thesis
      by (simp add: real_of_virtual_def)
  qed
  with assms(2) show ?thesis
    by (simp add: load_def)
qed

theorem virtual_id_round_trip_witness:
  "reachable default_options example_resolved
   \<and> cache example_resolved ''/app/B.vue'' =
       Some \<lparr>code = ''export default {}'', css = Some ''a{}'',
             scopeId = generateScopeId ''/app/B.vue'', hasScoped = True\<rparr>
   \<and> real_of_virtual example_resolved (VIRTUAL_PREFIX @ ''/app/B.vue'') = ''/app/B.vue''
   \<and> load example_resolved (VIRTUAL_PREFIX @ ''/app/B.vue'') =
       LoadCode (generateOutput \<lparr>code = ''export default {}'', css = Some ''a{}'',
             scopeId = generateScopeId ''/app/B.vue'', hasScoped = True\<rparr> False False)"
proof -
  have b: "cache example_resolved ''/app/B.vue'' =
       Some \<lparr>code = ''export default {}'', css = Some ''a{}'',
             scopeId = generateScopeId ''/app/B.vue'', hasScoped = True\<rparr>"
    by (simp add: example_resolved_fields example_started_fields)
  have q: "\<not> str_includes style_query (VIRTUAL_PREFIX @ ''/app/B.vue'')"
    by (simp add: style_query_def VIRTUAL_PREFIX_def)
  have f: "not_production example_resolved" "\<not> server example_resolved"
    by (simp_all add: example_resolved_eq example_started_def example_buildStart [symmetric]
        buildStart_def compileAll_def example_env_def example_configured_def
        configResolved_def initial_state_def default_options_def not_production_def
        split: prod.splits)
  from virtual_id_round_trip [OF example_reachable b] q
  have "real_of_virtual example_resolved (VIRTUAL_PREFIX @ ''/app/B.vue'') = ''/app/B.vue''
        \<and> load example_resolved (VIRTUAL_PREFIX @ ''/app/B.vue'') =
            LoadCode (generateOutput \<lparr>code = ''export default {}'', css = Some ''a{}'',
              scopeId = generateScopeId ''/app/B.vue'', hasScoped = True\<rparr>
              (\<not> not_production example_resolved) (server example_resolved))"
    by blast
  with example_reachable b f show ?thesis
    by simp
qed

end
